theory Spec2Isabelle
  imports Complex_Main "HOL-Library.Word" "HOL-Library.Multiset"
begin

section \<open>Python values and exceptions\<close>

text \<open>
  Every exception the modelled code can raise is a value. \<open>AssertionError\<close> is raised by
  the \<^verbatim>\<open>assert\<close> statements of the repository's own code; the other constructors are
  raised by the Python runtime or by a library (pandas, scikit-learn, torch) and only
  pass through the repository's code.
\<close>

datatype error =
    AssertionError string
  | KeyError string
  | ValueError string
  | TypeError string
  | RuntimeError string
  | IndexError
  | ZeroDivisionError

text \<open>
  A finite Python float is a rational number. The result of a float operation is the exact
  result rounded; the rounding is the parameter \<open>fl\<close> of every definition below that does
  float arithmetic, so that nothing proved here depends on how a result is rounded.
  \<open>py_int\<close> is \<^verbatim>\<open>int(x)\<close> on a float: truncation towards zero.
\<close>

definition py_int :: "rat \<Rightarrow> int" where
  "py_int q = (if 0 \<le> q then \<lfloor>q\<rfloor> else \<lceil>q\<rceil>)"

text \<open>
  The rounding Python does: IEEE 754 binary64, to the nearest float with 53 significant
  bits, a tie going to the float with an even last bit (floats of the subnormal range have
  the spacing \<open>2 ^ -1074\<close>). It is written out for the finite results; a result beyond the
  largest float is not modelled. \<open>exponent q\<close> is the \<open>e\<close> with \<open>2 ^ e \<le> \<bar>q\<bar> < 2 ^ (e + 1)\<close>.
  The statements about the code are proved for every rounding; \<open>binary64\<close> is the one
  the model is run with.
\<close>

function bit_length :: "int \<Rightarrow> int" where
  "bit_length a = (if a \<le> 0 then 0 else 1 + bit_length (a div 2))"
  by pat_completeness auto
termination
  by (relation "measure nat") auto

definition pow2 :: "int \<Rightarrow> rat" where
  "pow2 e = (if 0 \<le> e then 2 ^ nat e else 1 / 2 ^ nat (- e))"

definition exponent :: "rat \<Rightarrow> int" where
  "exponent q =
     (let (a, b) = quotient_of \<bar>q\<bar>;
          e = bit_length a - bit_length b
      in if pow2 e \<le> \<bar>q\<bar> then e else e - 1)"

definition round_half_even :: "rat \<Rightarrow> int" where
  "round_half_even q =
     (let f = \<lfloor>q\<rfloor>; r = q - of_int f
      in if r < 1 / 2 then f else if 1 / 2 < r then f + 1 else if even f then f else f + 1)"

definition binary64 :: "rat \<Rightarrow> rat" where
  "binary64 q =
     (if q = 0 then 0
      else (let ulp = pow2 (max (exponent q) (- 1022) - 52)
            in of_int (round_half_even (q / ulp)) * ulp))"

text \<open>The floats that Python reads the literals \<^verbatim>\<open>0.7\<close>, \<^verbatim>\<open>0.3\<close> and \<^verbatim>\<open>0.15\<close> as.\<close>

definition float_0_7 :: rat where
  "float_0_7 = 3152519739159347 / 4503599627370496"

definition float_0_3 :: rat where
  "float_0_3 = 5404319552844595 / 18014398509481984"

definition float_0_15 :: rat where
  "float_0_15 = 5404319552844595 / 36028797018963968"

section \<open>Dataframes\<close>

text \<open>
  A pandas dataframe: the row labels (\<open>index\<close>) and the columns in their order, each with
  its dtype and one cell per row. Dataframes are objects: a \<open>heap\<close> holds them, and a
  variable of the program holds an address.
\<close>

datatype dtype =
  Int8 | Int16 | Int32 | Int64 | UInt8 | UInt16 | UInt32 | UInt64 | Float64 | Bool | Object

datatype cell = IntC int | FloatC rat | BoolC bool | StrC string

record column =
  col_dtype :: dtype
  col_cells :: "cell list"

record dataframe =
  index :: "int list"
  cols :: "(string \<times> column) list"

type_synonym addr = nat
type_synonym heap = "dataframe list"

definition alloc :: "heap \<Rightarrow> dataframe \<Rightarrow> heap \<times> addr" where
  "alloc h d = (h @ [d], length h)"

definition columns :: "dataframe \<Rightarrow> string list" where
  "columns d = map fst (cols d)"

text \<open>\<^verbatim>\<open>df.shape[0]\<close>\<close>

definition nrows :: "dataframe \<Rightarrow> nat" where
  "nrows d = length (index d)"

text \<open>
  The dataframes pandas builds: one cell per row in every column, and (as the CSV loader
  makes them) no column label twice.
\<close>

definition wf_df :: "dataframe \<Rightarrow> bool" where
  "wf_df d = (distinct (columns d) \<and>
     list_all (\<lambda>nc. length (col_cells (snd nc)) = nrows d) (cols d))"

text \<open>\<^verbatim>\<open>np.issubdtype(t, np.integer)\<close>\<close>

fun issubdtype_integer :: "dtype \<Rightarrow> bool" where
  "issubdtype_integer Float64 = False"
| "issubdtype_integer Bool = False"
| "issubdtype_integer Object = False"
| "issubdtype_integer _ = True"

text \<open>
  \<^verbatim>\<open>series.astype(np.int64)\<close> on a column of integers: a value that does not fit 64 signed
  bits (a large uint64) wraps around.
\<close>

fun cast_int64 :: "cell \<Rightarrow> cell" where
  "cast_int64 (IntC v) = IntC (sint (word_of_int v :: 64 word))"
| "cast_int64 c = c"

definition astype_int64 :: "column \<Rightarrow> column" where
  "astype_int64 c = \<lparr>col_dtype = Int64, col_cells = map cast_int64 (col_cells c)\<rparr>"

text \<open>\<^verbatim>\<open>df[name] = c\<close>: an existing column is replaced where it stands, a new one is appended.\<close>

definition setitem :: "dataframe \<Rightarrow> string \<Rightarrow> column \<Rightarrow> dataframe" where
  "setitem d name c =
     (if name \<in> set (columns d)
      then d\<lparr>cols := map (\<lambda>nc. if fst nc = name then (name, c) else nc) (cols d)\<rparr>
      else d\<lparr>cols := cols d @ [(name, c)]\<rparr>)"

text \<open>
  \<^verbatim>\<open>df.iloc[inds]\<close>: a new dataframe of the rows at the positions \<open>inds\<close>, which keep their
  labels.
\<close>

definition iloc :: "dataframe \<Rightarrow> nat list \<Rightarrow> dataframe" where
  "iloc d inds =
     \<lparr>index = map (\<lambda>i. index d ! i) inds,
      cols = map (\<lambda>nc. (fst nc, \<lparr>col_dtype = col_dtype (snd nc),
                                  col_cells = map (\<lambda>i. col_cells (snd nc) ! i) inds\<rparr>)) (cols d)\<rparr>"

section \<open>The dataset class (lab2/imgclf/dataset/dataset.py)\<close>

datatype transform = TRAIN_TRANSFORM | EVAL_TRANSFORM | Compose nat

record 'cfg dataset =
  ds_mode :: string
  ds_df :: addr
  ds_transform :: transform
  ds_config :: 'cfg

text \<open>
  \<^verbatim>\<open>Dataset.__init__(self, df, config, mode, transform)\<close>. The dataframe is the object at
  address \<open>a\<close>; the assignment to \<^verbatim>\<open>df["label"]\<close> writes into that object, and the new
  dataset keeps the same address. The lookup \<^verbatim>\<open>df.dtypes["label"]\<close> is that of a dataframe
  whose column labels are distinct (\<open>wf_df\<close>); what is stated below of a dataset that
  \<^verbatim>\<open>train_test_split\<close> or \<^verbatim>\<open>split\<close> returns is stated of such dataframes.
\<close>

definition Dataset_init ::
  "heap \<Rightarrow> addr \<Rightarrow> 'cfg \<Rightarrow> string \<Rightarrow> transform option \<Rightarrow> error + (heap \<times> 'cfg dataset)" where
  "Dataset_init h a config mode transform =
     (if mode \<notin> set [''train'', ''eval'', ''inference'']
      then Inl (AssertionError ''unknown type of mode'')
      else if ''img'' \<notin> set (columns (h ! a))
      then Inl (AssertionError ''img in df.columns'')
      else
        (case
           (if mode \<noteq> ''inference''
            then (case map_of (cols (h ! a)) ''label'' of
                    None \<Rightarrow> Inl (KeyError ''label'')
                  | Some c \<Rightarrow>
                      if \<not> issubdtype_integer (col_dtype c)
                      then Inl (AssertionError ''the dtype of label column'')
                      else Inr (h[a := setitem (h ! a) ''label'' (astype_int64 c)]))
            else Inr h)
         of
           Inl e \<Rightarrow> Inl e
         | Inr h' \<Rightarrow>
             Inr (h',
               \<lparr>ds_mode = mode,
                ds_df = a,
                ds_transform =
                  (case transform of
                     None \<Rightarrow> if mode = ''train'' then TRAIN_TRANSFORM else EVAL_TRANSFORM
                   | Some t \<Rightarrow> t),
                ds_config = config\<rparr>)))"

text \<open>\<^verbatim>\<open>Dataset.__len__\<close>\<close>

definition Dataset_len :: "heap \<Rightarrow> 'cfg dataset \<Rightarrow> nat" where
  "Dataset_len h ds = nrows (h ! ds_df ds)"

subsection \<open>scikit-learn's \<^verbatim>\<open>train_test_split\<close>\<close>

text \<open>
  The library call \<^verbatim>\<open>train_test_split(df, train_size=k, shuffle=True, random_state=SEED)\<close>
  with an integer \<open>k\<close>, as scikit-learn documents and implements it: \<open>k\<close> must be positive
  and smaller than the number of rows, else \<^verbatim>\<open>ValueError\<close>; the test part takes the first
  \<open>n - k\<close> positions of a permutation of the row positions and the train part the next
  \<open>k\<close>. The permutation drawn from the seeded generator is the parameter \<open>perm\<close>: the
  generator is created anew from the same seed at every call, so one function of the
  number of rows describes every call.
\<close>

definition shuffle_split :: "(nat \<Rightarrow> nat list) \<Rightarrow> nat \<Rightarrow> nat \<Rightarrow> nat \<Rightarrow> nat list \<times> nat list" where
  "shuffle_split perm n_samples n_train n_test =
     (take n_train (drop n_test (perm n_samples)), take n_test (perm n_samples))"

definition sk_train_test_split ::
  "(nat \<Rightarrow> nat list) \<Rightarrow> dataframe \<Rightarrow> int \<Rightarrow> error + (dataframe \<times> dataframe)" where
  "sk_train_test_split perm d train_size =
     (if train_size \<ge> int (nrows d) \<or> train_size \<le> 0
      then Inl (ValueError ''train_size'')
      else
        (let n_train = nat train_size;
             n_test = nrows d - n_train;
             inds = shuffle_split perm (nrows d) n_train n_test
         in Inr (iloc d (fst inds), iloc d (snd inds))))"

subsection \<open>\<^verbatim>\<open>Dataset.train_test_split\<close> and \<^verbatim>\<open>Dataset.split\<close>\<close>

text \<open>\<^verbatim>\<open>int(num_samples * train_ratio)\<close>\<close>

definition train_set_size :: "(rat \<Rightarrow> rat) \<Rightarrow> nat \<Rightarrow> rat \<Rightarrow> int" where
  "train_set_size fl num_samples train_ratio = py_int (fl (of_nat num_samples * train_ratio))"

text \<open>
  \<open>sk\<close> is the library's split (\<open>sk_train_test_split perm\<close>); the two dataframes it returns
  are new objects. \<open>transforms_f\<close> and \<open>modes\<close> are the optional arguments, \<open>modes\<close>
  defaulting to \<open>(''train'', ''eval'')\<close>.
\<close>

definition train_test_split ::
  "(rat \<Rightarrow> rat) \<Rightarrow> (dataframe \<Rightarrow> int \<Rightarrow> error + (dataframe \<times> dataframe)) \<Rightarrow>
   heap \<Rightarrow> addr \<Rightarrow> rat \<Rightarrow> 'cfg \<Rightarrow> (transform option \<times> transform option) option \<Rightarrow>
   string \<times> string \<Rightarrow> error + (heap \<times> 'cfg dataset \<times> 'cfg dataset)" where
  "train_test_split fl sk h a train_ratio config transforms_f modes =
     (if \<not> train_ratio < 1 then Inl (AssertionError ''train_ratio < 1'')
      else
        (case sk (h ! a) (train_set_size fl (nrows (h ! a)) train_ratio) of
           Inl e \<Rightarrow> Inl e
         | Inr (train_df, eval_df) \<Rightarrow>
             (let (h1, ta) = alloc h train_df;
                  (h2, ea) = alloc h1 eval_df;
                  tf = (case transforms_f of None \<Rightarrow> (None, None) | Some p \<Rightarrow> p)
              in case Dataset_init h2 ta config (fst modes) (fst tf) of
                   Inl e \<Rightarrow> Inl e
                 | Inr (h3, train_set) \<Rightarrow>
                     (case Dataset_init h3 ea config (snd modes) (snd tf) of
                        Inl e \<Rightarrow> Inl e
                      | Inr (h4, eval_set) \<Rightarrow> Inr (h4, train_set, eval_set)))))"

definition default_modes :: "string \<times> string" where
  "default_modes = (''train'', ''eval'')"

text \<open>\<^verbatim>\<open>sum(split_ratio)\<close>: the float additions \<^verbatim>\<open>(0 + r0) + r1\<close>.\<close>

definition sumation :: "(rat \<Rightarrow> rat) \<Rightarrow> rat \<times> rat \<Rightarrow> rat" where
  "sumation fl split_ratio = fl (fl (0 + fst split_ratio) + snd split_ratio)"

text \<open>\<^verbatim>\<open>split_ratio[1] / (1 - split_ratio[0])\<close>\<close>

definition valid_set_ratio :: "(rat \<Rightarrow> rat) \<Rightarrow> rat \<times> rat \<Rightarrow> error + rat" where
  "valid_set_ratio fl split_ratio =
     (if fl (1 - fst split_ratio) = 0 then Inl ZeroDivisionError
      else Inr (fl (snd split_ratio / fl (1 - fst split_ratio))))"

definition split ::
  "(rat \<Rightarrow> rat) \<Rightarrow> (dataframe \<Rightarrow> int \<Rightarrow> error + (dataframe \<times> dataframe)) \<Rightarrow>
   heap \<Rightarrow> addr \<Rightarrow> rat \<times> rat \<Rightarrow> 'cfg \<Rightarrow> (transform option \<times> transform option) option \<Rightarrow>
   error + (heap \<times> 'cfg dataset \<times> 'cfg dataset \<times> 'cfg dataset)" where
  "split fl sk h a split_ratio config transforms_f =
     (if \<not> sumation fl split_ratio \<le> 1 then Inl (AssertionError ''sumation <= 1.0'')
      else
        (case train_test_split fl sk h a (fst split_ratio) config transforms_f default_modes of
           Inl e \<Rightarrow> Inl e
         | Inr (h1, train_set, eval_set) \<Rightarrow>
             (case valid_set_ratio fl split_ratio of
                Inl e \<Rightarrow> Inl e
              | Inr r \<Rightarrow>
                  (case train_test_split fl sk h1 (ds_df eval_set) r config transforms_f
                          (''eval'', ''eval'') of
                     Inl e \<Rightarrow> Inl e
                   | Inr (h2, valid_set, test_set) \<Rightarrow>
                       Inr (h2, train_set, valid_set, test_set)))))"

subsection \<open>\<^verbatim>\<open>Dataset.__getitem__\<close> and \<^verbatim>\<open>Dataset.data_loader\<close>\<close>

text \<open>
  The fields of the dataset's config that \<^verbatim>\<open>data_loader\<close> reads; \<open>batch_size\<close> is a dict
  from mode to size.
\<close>

record dataset_config =
  batch_size :: "(string \<times> int) list"
  num_workers :: int
  persistent_workers :: bool
  pin_memory :: bool

text \<open>
  \<^verbatim>\<open>Dataset.__getitem__(self, index)\<close>. Opening the image file and applying the transform
  are the parameters \<open>open_image\<close> and \<open>apply_transform\<close>. Outside inference mode the row
  is unpacked into exactly two values; in inference mode the index is returned in place of
  a label.
\<close>

definition Dataset_getitem ::
  "(cell \<Rightarrow> error + 'img) \<Rightarrow> (transform \<Rightarrow> 'img \<Rightarrow> 'x) \<Rightarrow> heap \<Rightarrow> 'cfg dataset \<Rightarrow> nat \<Rightarrow>
   error + ('x \<times> cell)" where
  "Dataset_getitem open_image apply_transform h ds i =
     (let d = h ! ds_df ds in
      if ds_mode ds \<noteq> ''inference''
      then
        (if \<not> i < nrows d then Inl IndexError
         else
           (case map (\<lambda>nc. col_cells (snd nc) ! i) (cols d) of
              [imgpath, label] \<Rightarrow>
                (case open_image imgpath of
                   Inl e \<Rightarrow> Inl e
                 | Inr img \<Rightarrow> Inr (apply_transform (ds_transform ds) img, label))
            | _ \<Rightarrow> Inl (ValueError ''unpack'')))
      else
        (case map_of (cols d) ''img'' of
           None \<Rightarrow> Inl (KeyError ''img'')
         | Some c \<Rightarrow>
             if \<not> i < length (col_cells c) then Inl IndexError
             else
               (case open_image (col_cells c ! i) of
                  Inl e \<Rightarrow> Inl e
                | Inr img \<Rightarrow> Inr (apply_transform (ds_transform ds) img, IntC (int i)))))"

text \<open>The arguments \<^verbatim>\<open>data_loader\<close> passes to the library's \<^verbatim>\<open>DataLoader\<close>.\<close>

record DataLoader =
  dl_dataset :: "dataset_config dataset"
  dl_batch_size :: int
  dl_shuffle :: bool
  dl_num_workers :: int
  dl_persistent_workers :: bool
  dl_pin_memory :: bool

definition data_loader :: "dataset_config dataset \<Rightarrow> error + DataLoader" where
  "data_loader ds =
     (let mode = (if ds_mode ds = ''inference'' then ''eval'' else ds_mode ds) in
      case map_of (batch_size (ds_config ds)) mode of
        None \<Rightarrow> Inl (KeyError mode)
      | Some bs \<Rightarrow>
          Inr \<lparr>dl_dataset = ds,
               dl_batch_size = bs,
               dl_shuffle = (ds_mode ds = ''train''),
               dl_num_workers = num_workers (ds_config ds),
               dl_persistent_workers = persistent_workers (ds_config ds),
               dl_pin_memory = pin_memory (ds_config ds)\<rparr>)"

text \<open>
  One iteration over a \<^verbatim>\<open>DataLoader\<close>, as the library documents it: the positions of the
  dataset in the sampler's order (a permutation \<open>sampler n\<close> when shuffling, else
  \<open>0..<n\<close>), cut into batches of \<open>batch_size\<close>, the last one possibly shorter; every item
  is fetched with \<^verbatim>\<open>__getitem__\<close>, and a batch is the items' inputs and their targets.
  In the definitions of the training loop the iteration is a parameter; this one is used
  to run them.
\<close>

fun chunks :: "nat \<Rightarrow> nat \<Rightarrow> 'a list \<Rightarrow> 'a list list" where
  "chunks fuel bs [] = []"
| "chunks 0 bs xs = [xs]"
| "chunks (Suc fuel) bs xs = take bs xs # chunks fuel bs (drop bs xs)"

fun collect :: "(error + 'a) list \<Rightarrow> error + 'a list" where
  "collect [] = Inr []"
| "collect (Inl e # rs) = Inl e"
| "collect (Inr x # rs) = (case collect rs of Inl e \<Rightarrow> Inl e | Inr xs \<Rightarrow> Inr (x # xs))"

definition DataLoader_iter ::
  "(nat \<Rightarrow> nat list) \<Rightarrow> (dataset_config dataset \<Rightarrow> nat \<Rightarrow> error + ('x \<times> cell)) \<Rightarrow> heap \<Rightarrow>
   DataLoader \<Rightarrow> error + ('x list \<times> cell list) list" where
  "DataLoader_iter sampler getitem h dl =
     (if dl_batch_size dl \<le> 0 then Inl (ValueError ''batch_size'')
      else
        (let n = Dataset_len h (dl_dataset dl);
             order = (if dl_shuffle dl then sampler n else [0..<n])
         in collect
              (map (\<lambda>batch.
                      case collect (map (getitem (dl_dataset dl)) batch) of
                        Inl e \<Rightarrow> Inl e
                      | Inr items \<Rightarrow> Inr (map fst items, map snd items))
                 (chunks n (nat (dl_batch_size dl)) order))))"

section \<open>The NFNet training utilities (lab2/nfnet/nfnet_model_utils.py)\<close>

subsection \<open>\<^verbatim>\<open>_get_optimizer\<close>\<close>

text \<open>The fields of \<^verbatim>\<open>NfnetConfig\<close> that \<^verbatim>\<open>_get_optimizer\<close> reads.\<close>

record NfnetConfig =
  learning_rate :: rat
  momentum :: rat
  clipping :: "rat option"
  weight_decay :: rat
  nesterov :: bool

text \<open>
  A parameter group of a torch optimizer: a dict with the group's parameters, its name,
  and the optimizer's options. \<open>og_more\<close> stands for whatever else the optimizer keeps.
\<close>

record 'p param_group =
  pg_name :: string
  pg_params :: 'p
  pg_lr :: rat
  pg_momentum :: rat
  pg_dampening :: rat
  pg_weight_decay :: rat
  pg_nesterov :: bool
  pg_clipping :: "rat option"
  pg_eps :: rat

record ('p, 'st) optimizer =
  param_groups :: "'p param_group list"
  opt_state :: 'st

text \<open>
  The loop over \<^verbatim>\<open>optimizer.param_groups\<close>: each group is a dict that the two assignments
  update in place.
\<close>

fun exclude_groups ::
  "(string \<Rightarrow> bool) \<Rightarrow> (string \<Rightarrow> bool) \<Rightarrow> 'p param_group list \<Rightarrow> 'p param_group list" where
  "exclude_groups exclude_from_weight_decay exclude_from_clipping [] = []"
| "exclude_groups exclude_from_weight_decay exclude_from_clipping (g # gs) =
     (let name = pg_name g;
          g1 = (if exclude_from_weight_decay name then g\<lparr>pg_weight_decay := 0\<rparr> else g);
          g2 = (if exclude_from_clipping name then g1\<lparr>pg_clipping := None\<rparr> else g1)
      in g2 # exclude_groups exclude_from_weight_decay exclude_from_clipping gs)"

text \<open>
  \<^verbatim>\<open>_get_optimizer(model, config)\<close>. The model is its named parameters and its two
  predicates; \<open>SGD_AGC\<close> is the library's constructor, called with the named parameters
  and the five config fields.
\<close>

definition get_optimizer ::
  "((string \<times> 'p) list \<Rightarrow> rat \<Rightarrow> rat \<Rightarrow> rat option \<Rightarrow> rat \<Rightarrow> bool \<Rightarrow> error + ('p, 'st) optimizer) \<Rightarrow>
   (string \<times> 'p) list \<Rightarrow> (string \<Rightarrow> bool) \<Rightarrow> (string \<Rightarrow> bool) \<Rightarrow> NfnetConfig \<Rightarrow>
   error + ('p, 'st) optimizer" where
  "get_optimizer SGD_AGC named_parameters exclude_from_weight_decay exclude_from_clipping config =
     (case SGD_AGC named_parameters (learning_rate config) (momentum config) (clipping config)
             (weight_decay config) (nesterov config) of
        Inl e \<Rightarrow> Inl e
      | Inr optimizer \<Rightarrow>
          Inr (optimizer\<lparr>param_groups :=
                 exclude_groups exclude_from_weight_decay exclude_from_clipping
                   (param_groups optimizer)\<rparr>))"

text \<open>
  The library's \<^verbatim>\<open>SGD_AGC(named_params, lr, momentum, clipping, weight_decay, nesterov)\<close>,
  as the nfnets package documents it: it refuses a negative learning rate, momentum or
  weight decay, Nesterov momentum without momentum, and an empty parameter list; else it
  makes one parameter group per named parameter, each with the given options
  (\<open>dampening\<close> \<open>0\<close> and \<open>eps\<close> \<open>0.001\<close> by default).
\<close>

definition SGD_AGC ::
  "(string \<times> 'p) list \<Rightarrow> rat \<Rightarrow> rat \<Rightarrow> rat option \<Rightarrow> rat \<Rightarrow> bool \<Rightarrow> error + ('p, unit) optimizer" where
  "SGD_AGC named_params lr mom clip wd nest =
     (if lr < 0 then Inl (ValueError ''Invalid learning rate'')
      else if mom < 0 then Inl (ValueError ''Invalid momentum value'')
      else if wd < 0 then Inl (ValueError ''Invalid weight_decay value'')
      else if nest \<and> mom \<le> 0 then Inl (ValueError ''Nesterov momentum requires a momentum'')
      else if named_params = [] then Inl (ValueError ''optimizer got an empty parameter list'')
      else Inr \<lparr>param_groups =
                  map (\<lambda>np. \<lparr>pg_name = fst np, pg_params = snd np, pg_lr = lr,
                              pg_momentum = mom, pg_dampening = 0, pg_weight_decay = wd,
                              pg_nesterov = nest, pg_clipping = clip, pg_eps = 1 / 1000\<rparr>)
                    named_params,
                opt_state = ()\<rparr>)"

subsection \<open>\<^verbatim>\<open>_train_epoch\<close>\<close>

text \<open>
  Python float arithmetic as the loop uses it, on an abstract type \<open>'f\<close> of floats (NaN
  and the infinities included): the float \<open>0.0\<close>, \<^verbatim>\<open>a + b\<close>, \<^verbatim>\<open>a * k\<close> and \<^verbatim>\<open>a / k\<close> for an
  integer \<open>k \<noteq> 0\<close>, \<^verbatim>\<open>j / k\<close> for integers with \<open>k \<noteq> 0\<close>, and \<^verbatim>\<open>np.isnan\<close>.
\<close>

record 'f float_ops =
  fzero :: 'f
  fadd :: "'f \<Rightarrow> 'f \<Rightarrow> 'f"
  fmul_int :: "'f \<Rightarrow> nat \<Rightarrow> 'f"
  fdiv_int :: "'f \<Rightarrow> nat \<Rightarrow> 'f"
  int_truediv :: "nat \<Rightarrow> nat \<Rightarrow> 'f"
  isnan :: "'f \<Rightarrow> bool"

text \<open>
  What the loop asks of torch, on an abstract state \<open>'m\<close> (the model's parameters with the
  optimizer and the gradient scaler): \<^verbatim>\<open>self.model.train()\<close>; the forward pass
  \<^verbatim>\<open>self.model(inputs)\<close> with its device, fp16 and autocast options; the loss
  \<^verbatim>\<open>self.criterion(output, targets)\<close> read with \<^verbatim>\<open>.item()\<close>; the update
  (\<^verbatim>\<open>zero_grad\<close>, \<^verbatim>\<open>backward\<close> on the scaled loss, \<^verbatim>\<open>scaler.step\<close>, \<^verbatim>\<open>scaler.update\<close>); and the
  indices \<^verbatim>\<open>torch.max(output, 1)\<close> returns. Each of the first calls can raise.
\<close>

record ('m, 'x, 'o, 'f) torch_ops =
  set_train :: "'m \<Rightarrow> 'm"
  forward :: "'m \<Rightarrow> 'x list \<Rightarrow> error + 'o"
  criterion :: "'o \<Rightarrow> cell list \<Rightarrow> error + 'f"
  update :: "'m \<Rightarrow> 'x list \<Rightarrow> cell list \<Rightarrow> error + 'm"
  argmax1 :: "'o \<Rightarrow> int list"

text \<open>\<^verbatim>\<open>(predicted == targets).sum().item()\<close>\<close>

definition count_equal :: "int list \<Rightarrow> cell list \<Rightarrow> nat" where
  "count_equal predicted targets =
     length (filter (\<lambda>pt. IntC (fst pt) = snd pt) (zip predicted targets))"

record ('m, 'f) epoch_state =
  es_model :: 'm
  es_running_loss :: 'f
  es_correct_labels :: nat
  es_is_nan :: bool
  es_stdout :: "string list"

text \<open>The body of the loop, for one batch.\<close>

definition train_batch ::
  "'f float_ops \<Rightarrow> ('m, 'x, 'o, 'f) torch_ops \<Rightarrow> ('m, 'f) epoch_state \<Rightarrow> 'x list \<times> cell list \<Rightarrow>
   error + ('m, 'f) epoch_state" where
  "train_batch F T s batch =
     (case forward T (es_model s) (fst batch) of
        Inl e \<Rightarrow> Inl e
      | Inr output \<Rightarrow>
          (case criterion T output (snd batch) of
             Inl e \<Rightarrow> Inl e
           | Inr loss \<Rightarrow>
               (case update T (es_model s) (fst batch) (snd batch) of
                  Inl e \<Rightarrow> Inl e
                | Inr m' \<Rightarrow>
                    (let tem = fmul_int F loss (length (fst batch));
                         s1 = (if isnan F tem
                               then (if \<not> es_is_nan s
                                     then s\<lparr>es_is_nan := True, es_stdout := es_stdout s @ [''nan!'']\<rparr>
                                     else s)
                               else if es_is_nan s
                               then s\<lparr>es_stdout := es_stdout s @ [''no longer nan''],
                                       es_is_nan := False\<rparr>
                               else s)
                     in Inr (s1\<lparr>es_model := m',
                              es_running_loss := fadd F (es_running_loss s1) tem,
                              es_correct_labels := es_correct_labels s1
                                + count_equal (argmax1 T output) (snd batch)\<rparr>)))))"

text \<open>The loop: the batches in the order the loader yields them, until one raises.\<close>

fun train_batches ::
  "'f float_ops \<Rightarrow> ('m, 'x, 'o, 'f) torch_ops \<Rightarrow> ('m, 'f) epoch_state \<Rightarrow> ('x list \<times> cell list) list \<Rightarrow>
   error + ('m, 'f) epoch_state" where
  "train_batches F T s [] = Inr s"
| "train_batches F T s (batch # batches) =
     (case train_batch F T s batch of
        Inl e \<Rightarrow> Inl e
      | Inr s' \<Rightarrow> train_batches F T s' batches)"

text \<open>
  \<^verbatim>\<open>_train_epoch(self, train_dataset)\<close>. \<open>iterate\<close> is one iteration over the data loader.
  The result is the pair the method returns, together with the state it leaves behind
  and what it printed. Dividing by \<^verbatim>\<open>len(train_dataset)\<close> raises when that is \<open>0\<close>.
\<close>

definition train_epoch ::
  "'f float_ops \<Rightarrow> ('m, 'x, 'o, 'f) torch_ops \<Rightarrow>
   (heap \<Rightarrow> DataLoader \<Rightarrow> error + ('x list \<times> cell list) list) \<Rightarrow>
   heap \<Rightarrow> 'm \<Rightarrow> dataset_config dataset \<Rightarrow> error + (('f \<times> 'f) \<times> 'm \<times> string list)" where
  "train_epoch F T iterate h m train_dataset =
     (case data_loader train_dataset of
        Inl e \<Rightarrow> Inl e
      | Inr dataloader \<Rightarrow>
          (case iterate h dataloader of
             Inl e \<Rightarrow> Inl e
           | Inr batches \<Rightarrow>
               (case train_batches F T
                       \<lparr>es_model = set_train T m, es_running_loss = fzero F,
                        es_correct_labels = 0, es_is_nan = False, es_stdout = []\<rparr> batches of
                  Inl e \<Rightarrow> Inl e
                | Inr s \<Rightarrow>
                    if Dataset_len h train_dataset = 0 then Inl ZeroDivisionError
                    else Inr ((fdiv_int F (es_running_loss s) (Dataset_len h train_dataset),
                               int_truediv F (es_correct_labels s) (Dataset_len h train_dataset)),
                              es_model s, es_stdout s))))"

section \<open>The variational autoencoder (lab3/vae/model.py)\<close>

text \<open>
  The Python numbers the constructors compute with: an \<^verbatim>\<open>int\<close> or a \<^verbatim>\<open>float\<close>. True
  division \<^verbatim>\<open>a / b\<close> of two ints gives a float, whatever its value.
\<close>

datatype pynum = PyInt int | PyFloat rat

definition truediv :: "(rat \<Rightarrow> rat) \<Rightarrow> int \<Rightarrow> int \<Rightarrow> error + pynum" where
  "truediv fl a b =
     (if b = 0 then Inl ZeroDivisionError else Inr (PyFloat (fl (of_int a / of_int b))))"

text \<open>\<^verbatim>\<open>t[i]\<close> on a tuple: a negative index counts from the end.\<close>

definition getitem :: "'a list \<Rightarrow> int \<Rightarrow> error + 'a" where
  "getitem t i =
     (let j = (if i < 0 then int (length t) + i else i)
      in if 0 \<le> j \<and> j < int (length t) then Inr (t ! nat j) else Inl IndexError)"

record ModelConfig =
  latent_dims :: int
  capacity :: int
  variational_beta :: int
  input_shape :: "int list"

text \<open>
  \<^verbatim>\<open>nn.Linear(in_features, out_features)\<close>, as torch implements it: the weight is allocated
  with \<^verbatim>\<open>torch.empty((out_features, in_features))\<close>, which takes a tuple of ints and raises
  \<^verbatim>\<open>TypeError\<close> on a float, and \<^verbatim>\<open>RuntimeError\<close> on a
  negative size.
\<close>

record Linear =
  in_features :: int
  out_features :: int

fun nn_Linear :: "pynum \<Rightarrow> pynum \<Rightarrow> error + Linear" where
  "nn_Linear (PyInt n_in) (PyInt n_out) =
     (if n_in < 0 \<or> n_out < 0 then Inl (RuntimeError ''negative dimension'')
      else Inr \<lparr>in_features = n_in, out_features = n_out\<rparr>)"
| "nn_Linear _ _ = Inl (TypeError ''empty(): argument size must be tuple of ints'')"

record 'conv Encoder =
  enc_conv1 :: 'conv
  enc_conv2 :: 'conv
  enc_fc :: Linear
  enc_fc_mu :: Linear
  enc_fc_logvar :: Linear

record 'conv Decoder =
  dec_config :: ModelConfig
  dec_fc :: "Linear \<times> Linear"
  dec_conv2 :: 'conv
  dec_conv1 :: 'conv

text \<open>
  \<^verbatim>\<open>Encoder.__init__(self, config)\<close>. \<open>Conv2d\<close> is the library's constructor
  \<^verbatim>\<open>nn.Conv2d(in, out, kernel_size=4, stride=2, padding=1)\<close>, whatever it does.
\<close>

definition py_bind :: "error + 'a \<Rightarrow> ('a \<Rightarrow> error + 'b) \<Rightarrow> error + 'b" where
  "py_bind r f = (case r of Inl e \<Rightarrow> Inl e | Inr x \<Rightarrow> f x)"

definition Encoder_init ::
  "(rat \<Rightarrow> rat) \<Rightarrow> (int \<Rightarrow> int \<Rightarrow> error + 'conv) \<Rightarrow> ModelConfig \<Rightarrow> error + 'conv Encoder" where
  "Encoder_init fl Conv2d config =
     py_bind (getitem (input_shape config) (- 1)) (\<lambda>channels.
     let c = capacity config * channels in
     py_bind (getitem (input_shape config) (- 1)) (\<lambda>channels.
     py_bind (Conv2d channels c) (\<lambda>conv1.
     py_bind (Conv2d c (c * 2)) (\<lambda>conv2.
     py_bind (getitem (input_shape config) 0) (\<lambda>width.
     let dim = c * 2 * (width div 4) ^ 2 in
     py_bind (truediv fl dim 2) (\<lambda>half.
     py_bind (nn_Linear (PyInt dim) half) (\<lambda>fc.
     py_bind (truediv fl dim 2) (\<lambda>half.
     py_bind (nn_Linear half (PyInt (latent_dims config))) (\<lambda>fc_mu.
     py_bind (truediv fl dim 2) (\<lambda>half.
     py_bind (nn_Linear half (PyInt (latent_dims config))) (\<lambda>fc_logvar.
     Inr \<lparr>enc_conv1 = conv1, enc_conv2 = conv2, enc_fc = fc, enc_fc_mu = fc_mu,
          enc_fc_logvar = fc_logvar\<rparr>)))))))))))"

text \<open>
  \<^verbatim>\<open>Decoder.__init__(self, config)\<close>; \<open>ConvTranspose2d\<close> is the library's constructor.
\<close>

definition Decoder_init ::
  "(rat \<Rightarrow> rat) \<Rightarrow> (int \<Rightarrow> int \<Rightarrow> error + 'conv) \<Rightarrow> ModelConfig \<Rightarrow> error + 'conv Decoder" where
  "Decoder_init fl ConvTranspose2d config =
     py_bind (getitem (input_shape config) (- 1)) (\<lambda>channels.
     let c = capacity config * channels in
     py_bind (getitem (input_shape config) 0) (\<lambda>width.
     let dim = c * 2 * (width div 4) ^ 2 in
     py_bind (truediv fl dim 2) (\<lambda>half.
     py_bind (nn_Linear (PyInt (latent_dims config)) half) (\<lambda>fc1.
     py_bind (truediv fl dim 2) (\<lambda>half.
     py_bind (nn_Linear half (PyInt dim)) (\<lambda>fc2.
     py_bind (ConvTranspose2d (c * 2) c) (\<lambda>conv2.
     py_bind (getitem (input_shape config) (- 1)) (\<lambda>channels.
     py_bind (ConvTranspose2d c channels) (\<lambda>conv1.
     Inr \<lparr>dec_config = config, dec_fc = (fc1, fc2), dec_conv2 = conv2,
          dec_conv1 = conv1\<rparr>)))))))))"

record 'conv VariationalAutoencoder =
  vae_encoder :: "'conv Encoder"
  vae_decoder :: "'conv Decoder"
  vae_config :: ModelConfig

definition VariationalAutoencoder_init ::
  "(rat \<Rightarrow> rat) \<Rightarrow> (int \<Rightarrow> int \<Rightarrow> error + 'conv) \<Rightarrow> (int \<Rightarrow> int \<Rightarrow> error + 'conv) \<Rightarrow>
   ModelConfig \<Rightarrow> error + 'conv VariationalAutoencoder" where
  "VariationalAutoencoder_init fl Conv2d ConvTranspose2d config =
     py_bind (Encoder_init fl Conv2d config) (\<lambda>encoder.
     py_bind (Decoder_init fl ConvTranspose2d config) (\<lambda>decoder.
     Inr \<lparr>vae_encoder = encoder, vae_decoder = decoder, vae_config = config\<rparr>))"

text \<open>The config of the source: \<^verbatim>\<open>input_shape = INPUT_SHAPE[D.NMINST] = (28, 1)\<close>.\<close>

definition default_ModelConfig :: ModelConfig where
  "default_ModelConfig =
     \<lparr>latent_dims = 2, capacity = 64, variational_beta = 1, input_shape = [28, 1]\<rparr>"

subsection \<open>\<^verbatim>\<open>VariationalAutoencoder.forward\<close>\<close>

text \<open>
  The forward pass, for a module whose encoder and decoder are callable: \<open>encoder\<close> and
  \<open>decoder\<close> are their \<^verbatim>\<open>forward\<close> methods on tensors of an abstract type \<open>'t\<close>, and
  \<open>training\<close> is the module's flag. The tensor operations of \<^verbatim>\<open>latent_sample\<close> are
  the fields of \<open>tensor_ops\<close> (\<open>t_normal_like\<close> draws from the generator state \<open>'g\<close>).
  The in-place operations \<^verbatim>\<open>exp_\<close> and \<^verbatim>\<open>add_\<close> write into tensors that \<^verbatim>\<open>mul\<close> has just created, never into \<open>mu\<close> or \<open>logvar\<close>, so tensors are values here.
\<close>

record ('t, 'g) tensor_ops =
  t_mul_scalar :: "'t \<Rightarrow> rat \<Rightarrow> 't"
  t_exp :: "'t \<Rightarrow> 't"
  t_normal_like :: "'g \<Rightarrow> 't \<Rightarrow> 't \<times> 'g"
  t_mul :: "'t \<Rightarrow> 't \<Rightarrow> 't"
  t_add :: "'t \<Rightarrow> 't \<Rightarrow> 't"

record ('x, 't, 'y) vae_module =
  encoder :: "'x \<Rightarrow> error + ('t \<times> 't)"
  decoder :: "'t \<Rightarrow> error + 'y"
  training :: bool

definition latent_sample ::
  "('t, 'g) tensor_ops \<Rightarrow> ('x, 't, 'y) vae_module \<Rightarrow> 'g \<Rightarrow> 't \<Rightarrow> 't \<Rightarrow> 't \<times> 'g" where
  "latent_sample ops self g mu logvar =
     (if training self
      then (let std = t_exp ops (t_mul_scalar ops logvar (1 / 2));
                (eps, g') = t_normal_like ops g std
            in (t_add ops (t_mul ops eps std) mu, g'))
      else (mu, g))"

definition vae_forward ::
  "('t, 'g) tensor_ops \<Rightarrow> ('x, 't, 'y) vae_module \<Rightarrow> 'g \<Rightarrow> 'x \<Rightarrow> error + (('y \<times> 't \<times> 't) \<times> 'g)" where
  "vae_forward ops self g x =
     (case encoder self x of
        Inl e \<Rightarrow> Inl e
      | Inr (latent_mu, latent_logvar) \<Rightarrow>
          (let (latent, g') = latent_sample ops self g latent_mu latent_logvar
           in case decoder self latent of
                Inl e \<Rightarrow> Inl e
              | Inr x_recon \<Rightarrow> Inr ((x_recon, latent_mu, latent_logvar), g')))"

section \<open>Vocabulary of the statements and inputs to run the model on\<close>

text \<open>
  What \<^verbatim>\<open>Dataset.__init__\<close> does to a dataframe that has an integer \<open>label\<close> column:
  the cast of that column to int64, every other column as it was.
\<close>

definition cast_label :: "dataframe \<Rightarrow> dataframe" where
  "cast_label d =
     (case map_of (cols d) ''label'' of
        None \<Rightarrow> d
      | Some c \<Rightarrow> setitem d ''label'' (astype_int64 c))"

text \<open>A dataframe of four rows in the documented form, used to evaluate the model.\<close>

definition df4 :: dataframe where
  "df4 = \<lparr>index = [10, 11, 12, 13],
          cols = [(''img'', \<lparr>col_dtype = Object,
                     col_cells = [StrC ''a.png'', StrC ''b.png'', StrC ''c.png'', StrC ''d.png'']\<rparr>),
                  (''label'', \<lparr>col_dtype = Int32,
                     col_cells = [IntC 0, IntC 1, IntC 2, IntC 1]\<rparr>)]\<rparr>"

text \<open>A dataframe of ten rows, and one of one row.\<close>

definition df10 :: dataframe where
  "df10 = \<lparr>index = [0, 1, 2, 3, 4, 5, 6, 7, 8, 9],
           cols = [(''img'', \<lparr>col_dtype = Object,
                      col_cells = [StrC ''0.png'', StrC ''1.png'', StrC ''2.png'', StrC ''3.png'',
                                   StrC ''4.png'', StrC ''5.png'', StrC ''6.png'', StrC ''7.png'',
                                   StrC ''8.png'', StrC ''9.png'']\<rparr>),
                   (''label'', \<lparr>col_dtype = Int64,
                      col_cells = [IntC 0, IntC 1, IntC 2, IntC 0, IntC 1, IntC 2, IntC 0, IntC 1,
                                   IntC 2, IntC 0]\<rparr>)]\<rparr>"

definition df1 :: dataframe where
  "df1 = \<lparr>index = [0],
          cols = [(''img'', \<lparr>col_dtype = Object, col_cells = [StrC ''a.png'']\<rparr>),
                  (''label'', \<lparr>col_dtype = Int64, col_cells = [IntC 7]\<rparr>)]\<rparr>"


text \<open>
  One pass over the batches, in the words of the specification: for every batch, in the
  loader's order, the batch loss, the batch size and the number of samples of the batch
  whose argmax prediction equals the target, each computed with the model as the updates on
  the batches before have left it; the model is updated once per batch.
\<close>

record 'f batch_report =
  br_loss :: 'f
  br_size :: nat
  br_correct :: nat

fun epoch_trace ::
  "('m, 'x, 'o, 'f) torch_ops \<Rightarrow> 'm \<Rightarrow> ('x list \<times> cell list) list \<Rightarrow>
   error + ('f batch_report list \<times> 'm)" where
  "epoch_trace T m [] = Inr ([], m)"
| "epoch_trace T m (batch # batches) =
     (case forward T m (fst batch) of
        Inl e \<Rightarrow> Inl e
      | Inr output \<Rightarrow>
          (case criterion T output (snd batch) of
             Inl e \<Rightarrow> Inl e
           | Inr loss \<Rightarrow>
               (case update T m (fst batch) (snd batch) of
                  Inl e \<Rightarrow> Inl e
                | Inr m' \<Rightarrow>
                    (case epoch_trace T m' batches of
                       Inl e \<Rightarrow> Inl e
                     | Inr (reports, m_end) \<Rightarrow>
                         Inr (\<lparr>br_loss = loss, br_size = length (fst batch),
                               br_correct = count_equal (argmax1 T output) (snd batch)\<rparr> # reports,
                              m_end)))))"


text \<open>
  Two configs for \<^verbatim>\<open>_get_optimizer\<close>: the defaults of \<^verbatim>\<open>NfnetConfig\<close> with learning rate
  \<open>0.1\<close>, and the same with weight decay switched off.
\<close>

definition NfnetConfig0 :: NfnetConfig where
  "NfnetConfig0 = \<lparr>learning_rate = 1 / 10, momentum = 9 / 10, clipping = Some (1 / 10),
                    weight_decay = 0, nesterov = True\<rparr>"

definition NfnetConfig_default :: NfnetConfig where
  "NfnetConfig_default = \<lparr>learning_rate = 1 / 10, momentum = 9 / 10, clipping = Some (1 / 10),
                    weight_decay = 2 / 100000, nesterov = True\<rparr>"

text \<open>
  An empty dataframe in the documented form, and a training dataset on the first object of
  the heap, with batches of three.
\<close>

definition df0 :: dataframe where
  "df0 = \<lparr>index = [],
          cols = [(''img'', \<lparr>col_dtype = Object, col_cells = []\<rparr>),
                  (''label'', \<lparr>col_dtype = Int64, col_cells = []\<rparr>)]\<rparr>"

definition config3 :: dataset_config where
  "config3 = \<lparr>batch_size = [(''train'', 3), (''eval'', 3)], num_workers = 0,
               persistent_workers = False, pin_memory = False\<rparr>"

definition train_ds :: "dataset_config dataset" where
  "train_ds = \<lparr>ds_mode = ''train'', ds_df = 0, ds_transform = TRAIN_TRANSFORM, ds_config = config3\<rparr>"

text \<open>Python's float arithmetic on finite floats: the exact result, rounded.\<close>

definition rat_floats :: "rat float_ops" where
  "rat_floats = \<lparr>fzero = 0, fadd = (\<lambda>a b. binary64 (a + b)),
                  fmul_int = (\<lambda>a k. binary64 (a * of_nat k)),
                  fdiv_int = (\<lambda>a k. binary64 (a / of_nat k)),
                  int_truediv = (\<lambda>j k. binary64 (of_nat j / of_nat k)),
                  isnan = (\<lambda>a. False)\<rparr>"

text \<open>
  A toy model: it predicts class 1 for every input, its loss is always \<open>0.5\<close>, and its
  state counts the updates. Its loader reads the image paths themselves as the images.
\<close>

definition toy_torch :: "(nat, cell, int list, rat) torch_ops" where
  "toy_torch = \<lparr>set_train = (\<lambda>m. m), forward = (\<lambda>m xs. Inr (map (\<lambda>x. 1) xs)),
                 criterion = (\<lambda>out targets. Inr (1 / 2)), update = (\<lambda>m xs targets. Inr (Suc m)),
                 argmax1 = (\<lambda>out. out)\<rparr>"

definition toy_iterate :: "heap \<Rightarrow> DataLoader \<Rightarrow> error + (cell list \<times> cell list) list" where
  "toy_iterate h = DataLoader_iter (\<lambda>n. rev [0..<n])
     (\<lambda>ds. Dataset_getitem (\<lambda>path. Inr path) (\<lambda>t img. img) h ds) h"

section \<open>Properties of the dataset operations\<close>

text \<open>Numbers that are floats: rounding leaves them as they are.\<close>

lemma binary64_zero: "binary64 0 = 0"
  by (simp add: binary64_def)

lemma binary64_exact:
  "binary64 0 = 0" "binary64 (1 / 4) = 1 / 4" "binary64 (1 / 2) = 1 / 2"
  "binary64 (3 / 4) = 3 / 4" "binary64 1 = 1" "binary64 (3 / 2) = 3 / 2" "binary64 2 = 2"
  by (rule binary64_zero) code_simp+

lemma nrows_iloc: "nrows (iloc d inds) = length inds"
  by (simp add: nrows_def iloc_def)


lemma map_of_map_snd:
  "map_of (map (\<lambda>nc. (fst nc, f (snd nc))) xs) k = map_option f (map_of xs k)"
  by (induction xs) auto

lemma columns_iloc: "columns (iloc d inds) = columns d"
  by (simp add: columns_def iloc_def comp_def)

lemma index_iloc: "index (iloc d inds) = map (\<lambda>i. index d ! i) inds"
  by (simp add: iloc_def)

lemma map_of_iloc:
  "map_of (cols (iloc d inds)) name =
     map_option (\<lambda>c. \<lparr>col_dtype = col_dtype c, col_cells = map (\<lambda>i. col_cells c ! i) inds\<rparr>)
       (map_of (cols d) name)"
  using map_of_map_snd [of "\<lambda>c. \<lparr>col_dtype = col_dtype c, col_cells = map (\<lambda>i. col_cells c ! i) inds\<rparr>" "cols d" name]
  by (simp add: iloc_def)

lemma map_of_in_columns: "map_of (cols d) name = Some c \<Longrightarrow> name \<in> set (columns d)"
  unfolding columns_def by (metis map_of_eq_None_iff option.distinct(1) set_map)

lemma columns_setitem: "name \<in> set (columns d) \<Longrightarrow> columns (setitem d name c) = columns d"
  unfolding columns_def setitem_def columns_def by (auto simp: comp_def)

lemma index_setitem: "index (setitem d name c) = index d"
  by (simp add: setitem_def)

lemma index_cast_label: "index (cast_label d) = index d"
  by (simp add: cast_label_def index_setitem split: option.splits)

lemma nrows_cast_label: "nrows (cast_label d) = nrows d"
  by (simp add: nrows_def index_cast_label)

lemma columns_cast_label: "columns (cast_label d) = columns d"
  by (auto simp: cast_label_def columns_setitem map_of_in_columns split: option.splits)

lemma map_of_replace:
  "map_of (map (\<lambda>nc. if fst nc = name then (name, c) else nc) xs) k =
     (if k = name then (if name \<in> fst ` set xs then Some c else None) else map_of xs k)"
  by (induction xs) force+

lemma map_of_setitem:
  "name \<in> set (columns d) \<Longrightarrow> map_of (cols (setitem d name c)) k =
     (if k = name then Some c else map_of (cols d) k)"
  unfolding setitem_def columns_def by (simp add: map_of_replace)

lemma Dataset_init_ok:
  assumes "mode = ''train'' \<or> mode = ''eval''"
    and "''img'' \<in> set (columns (h ! a))"
    and "map_of (cols (h ! a)) ''label'' = Some c"
    and "issubdtype_integer (col_dtype c)"
  shows "Dataset_init h a config mode transform =
     Inr (h[a := cast_label (h ! a)],
       \<lparr>ds_mode = mode, ds_df = a,
        ds_transform = (case transform of
                          None \<Rightarrow> if mode = ''train'' then TRAIN_TRANSFORM else EVAL_TRANSFORM
                        | Some t \<Rightarrow> t),
        ds_config = config\<rparr>)"
  using assms by (auto simp: Dataset_init_def cast_label_def)


lemma cast_int64_idem: "cast_int64 (cast_int64 c) = cast_int64 c"
  by (cases c) simp_all

lemma astype_int64_idem: "astype_int64 (astype_int64 c) = astype_int64 c"
  by (simp add: astype_int64_def cast_int64_idem)

lemma setitem_twice:
  "name \<in> set (columns d) \<Longrightarrow> setitem (setitem d name c) name c = setitem d name c"
proof -
  assume "name \<in> set (columns d)"
  moreover from this have "name \<in> set (columns (setitem d name c))"
    by (simp add: columns_setitem)
  ultimately show ?thesis
    by (simp add: setitem_def comp_def)
qed

lemma cast_label_idem: "cast_label (cast_label d) = cast_label d"
proof (cases "map_of (cols d) ''label''")
  case None
  then show ?thesis by (simp add: cast_label_def)
next
  case (Some c)
  then have in_cols: "''label'' \<in> set (columns d)" by (rule map_of_in_columns)
  have "cast_label d = setitem d ''label'' (astype_int64 c)"
    using Some by (simp add: cast_label_def)
  moreover have "map_of (cols (setitem d ''label'' (astype_int64 c))) ''label'' = Some (astype_int64 c)"
    using in_cols by (simp add: map_of_setitem)
  ultimately show ?thesis
    using in_cols by (simp add: cast_label_def astype_int64_idem setitem_twice)
qed

lemma iloc_setitem:
  "name \<in> set (columns d) \<Longrightarrow>
   iloc (setitem d name c) inds =
     setitem (iloc d inds) name \<lparr>col_dtype = col_dtype c, col_cells = map (\<lambda>i. col_cells c ! i) inds\<rparr>"
proof -
  assume "name \<in> set (columns d)"
  moreover from this have "name \<in> set (columns (iloc d inds))"
    by (simp add: columns_iloc)
  ultimately show ?thesis
    by (simp add: setitem_def) (simp add: iloc_def comp_def)
qed

lemma astype_int64_select:
  "\<forall>i\<in>set inds. i < length (col_cells c) \<Longrightarrow>
   \<lparr>col_dtype = col_dtype (astype_int64 c), col_cells = map (\<lambda>i. col_cells (astype_int64 c) ! i) inds\<rparr> =
   astype_int64 \<lparr>col_dtype = col_dtype c, col_cells = map (\<lambda>i. col_cells c ! i) inds\<rparr>"
  by (simp add: astype_int64_def)


lemma wf_df_label_length:
  "wf_df d \<Longrightarrow> map_of (cols d) name = Some c \<Longrightarrow> length (col_cells c) = nrows d"
  unfolding wf_df_def list_all_iff by (auto dest!: map_of_SomeD)

lemma cast_label_iloc:
  assumes "wf_df d" and "\<forall>i\<in>set inds. i < nrows d"
  shows "cast_label (iloc d inds) = iloc (cast_label d) inds"
proof (cases "map_of (cols d) ''label''")
  case None
  then show ?thesis by (simp add: cast_label_def map_of_iloc)
next
  case (Some c)
  then have in_cols: "''label'' \<in> set (columns d)" by (rule map_of_in_columns)
  have len: "length (col_cells c) = nrows d"
    using assms(1) Some by (rule wf_df_label_length)
  have "cast_label (iloc d inds) =
      setitem (iloc d inds) ''label''
        (astype_int64 \<lparr>col_dtype = col_dtype c, col_cells = map (\<lambda>i. col_cells c ! i) inds\<rparr>)"
    using Some by (simp add: cast_label_def map_of_iloc)
  also have "\<dots> = setitem (iloc d inds) ''label''
      \<lparr>col_dtype = col_dtype (astype_int64 c),
       col_cells = map (\<lambda>i. col_cells (astype_int64 c) ! i) inds\<rparr>"
    using assms(2) len by (simp add: astype_int64_select)
  also have "\<dots> = iloc (setitem d ''label'' (astype_int64 c)) inds"
    using in_cols by (simp add: iloc_setitem)
  also have "\<dots> = iloc (cast_label d) inds"
    using Some by (simp add: cast_label_def)
  finally show ?thesis .
qed

lemma iloc_iloc:
  "\<forall>j\<in>set js. j < length is \<Longrightarrow> iloc (iloc d is) js = iloc d (map (\<lambda>j. is ! j) js)"
  by (simp add: iloc_def comp_def)

lemma wf_df_iloc: "distinct (columns d) \<Longrightarrow> wf_df (iloc d inds)"
  by (simp add: wf_df_def columns_iloc nrows_iloc list_all_iff) (simp add: iloc_def image_iff)

lemma perm_length: "mset p = mset [0..<n] \<Longrightarrow> length p = n"
  by (metis length_upt minus_nat.diff_0 size_mset)

lemma perm_distinct: "mset p = mset [0..<n] \<Longrightarrow> distinct p"
  by (metis distinct_upt mset_eq_imp_distinct_iff)

lemma perm_set: "mset p = mset [0..<n] \<Longrightarrow> set p = {0..<n}"
  by (metis mset_eq_setD set_upt)

lemma shuffle_split_append:
  assumes "mset (perm n) = mset [0..<n]" and "k \<le> n"
  shows "snd (shuffle_split perm n k (n - k)) @ fst (shuffle_split perm n k (n - k)) = perm n"
proof -
  have "length (perm n) = n" using assms(1) by (rule perm_length)
  then have "take (n - k + k) (perm n) = perm n" using assms(2) by simp
  then show ?thesis
    unfolding shuffle_split_def fst_conv snd_conv by (simp only: take_add)
qed

lemma shuffle_split_length:
  assumes "mset (perm n) = mset [0..<n]" and "k \<le> n"
  shows "length (fst (shuffle_split perm n k (n - k))) = k"
    and "length (snd (shuffle_split perm n k (n - k))) = n - k"
  using perm_length [OF assms(1)] assms(2) by (simp_all add: shuffle_split_def)

lemma sk_train_test_split_ok:
  "0 < k \<Longrightarrow> k < int (nrows d) \<Longrightarrow>
   sk_train_test_split perm d k =
     Inr (iloc d (fst (shuffle_split perm (nrows d) (nat k) (nrows d - nat k))),
          iloc d (snd (shuffle_split perm (nrows d) (nat k) (nrows d - nat k))))"
  by (simp add: sk_train_test_split_def Let_def)

lemma train_test_split_ok:
  assumes ratio: "train_ratio < 1"
    and size: "0 < train_set_size fl (nrows (h ! a)) train_ratio"
              "train_set_size fl (nrows (h ! a)) train_ratio < int (nrows (h ! a))"
    and img: "''img'' \<in> set (columns (h ! a))"
    and label: "map_of (cols (h ! a)) ''label'' = Some c" "issubdtype_integer (col_dtype c)"
    and modes: "m1 = ''train'' \<or> m1 = ''eval''" "m2 = ''train'' \<or> m2 = ''eval''"
    and k: "k = nat (train_set_size fl (nrows (h ! a)) train_ratio)"
    and inds: "inds = shuffle_split perm (nrows (h ! a)) k (nrows (h ! a) - k)"
  shows "train_test_split fl (sk_train_test_split perm) h a train_ratio config transforms_f (m1, m2) =
     Inr (h @ [cast_label (iloc (h ! a) (fst inds)), cast_label (iloc (h ! a) (snd inds))],
       \<lparr>ds_mode = m1, ds_df = length h,
        ds_transform =
          (case fst (case transforms_f of None \<Rightarrow> (None, None) | Some p \<Rightarrow> p) of
             None \<Rightarrow> if m1 = ''train'' then TRAIN_TRANSFORM else EVAL_TRANSFORM
           | Some t \<Rightarrow> t),
        ds_config = config\<rparr>,
       \<lparr>ds_mode = m2, ds_df = Suc (length h),
        ds_transform =
          (case snd (case transforms_f of None \<Rightarrow> (None, None) | Some p \<Rightarrow> p) of
             None \<Rightarrow> if m2 = ''train'' then TRAIN_TRANSFORM else EVAL_TRANSFORM
           | Some t \<Rightarrow> t),
        ds_config = config\<rparr>)"
proof -
  let ?d = "h ! a"
  let ?t = "iloc ?d (fst inds)" and ?e = "iloc ?d (snd inds)"
  let ?h2 = "h @ [?t, ?e]"
  let ?h3 = "h @ [cast_label ?t, ?e]"
  let ?h4 = "h @ [cast_label ?t, cast_label ?e]"
  have sk: "sk_train_test_split perm ?d (train_set_size fl (nrows ?d) train_ratio) = Inr (?t, ?e)"
    using size by (simp add: sk_train_test_split_ok k inds)
  have sel_label: "map_of (cols (iloc ?d js)) ''label'' =
      Some \<lparr>col_dtype = col_dtype c, col_cells = map (\<lambda>i. col_cells c ! i) js\<rparr>" for js
    using label(1) by (simp add: map_of_iloc)
  have dt: "issubdtype_integer
      (col_dtype \<lparr>col_dtype = col_dtype c, col_cells = map (\<lambda>i. col_cells c ! i) js\<rparr>)" for js
    using label(2) by simp
  have t_at: "?h2 ! length h = ?t" by simp
  have t_img: "''img'' \<in> set (columns (?h2 ! length h))"
    using img by (simp only: t_at columns_iloc)
  have t_label: "map_of (cols (?h2 ! length h)) ''label'' =
      Some \<lparr>col_dtype = col_dtype c, col_cells = map (\<lambda>i. col_cells c ! i) (fst inds)\<rparr>"
    by (simp only: t_at sel_label)
  have heap3: "?h2[length h := cast_label ?t] = ?h3"
    by (simp add: list_update_append)
  have init1: "Dataset_init ?h2 (length h) config m1 tr1 =
      Inr (?h3, \<lparr>ds_mode = m1, ds_df = length h,
        ds_transform = (case tr1 of None \<Rightarrow> if m1 = ''train'' then TRAIN_TRANSFORM else EVAL_TRANSFORM
                        | Some t \<Rightarrow> t),
        ds_config = config\<rparr>)" for tr1
    using Dataset_init_ok [OF modes(1) t_img t_label dt] by (simp only: t_at heap3)
  have e_at: "?h3 ! Suc (length h) = ?e" by (simp add: nth_append)
  have e_img: "''img'' \<in> set (columns (?h3 ! Suc (length h)))"
    using img by (simp only: e_at columns_iloc)
  have e_label: "map_of (cols (?h3 ! Suc (length h))) ''label'' =
      Some \<lparr>col_dtype = col_dtype c, col_cells = map (\<lambda>i. col_cells c ! i) (snd inds)\<rparr>"
    by (simp only: e_at sel_label)
  have heap4: "?h3[Suc (length h) := cast_label ?e] = ?h4"
    by (simp add: list_update_append)
  have init2: "Dataset_init ?h3 (Suc (length h)) config m2 tr2 =
      Inr (?h4, \<lparr>ds_mode = m2, ds_df = Suc (length h),
        ds_transform = (case tr2 of None \<Rightarrow> if m2 = ''train'' then TRAIN_TRANSFORM else EVAL_TRANSFORM
                        | Some t \<Rightarrow> t),
        ds_config = config\<rparr>)" for tr2
    using Dataset_init_ok [OF modes(2) e_img e_label dt] by (simp only: e_at heap4)
  show ?thesis
    unfolding train_test_split_def using ratio
    by (simp add: sk alloc_def init1 init2 Let_def split del: if_split)
qed


lemma shuffle_split_mset:
  assumes "mset (perm n) = mset [0..<n]" and "k \<le> n"
  shows "mset (fst (shuffle_split perm n k (n - k))) + mset (snd (shuffle_split perm n k (n - k)))
           = mset [0..<n]"
proof -
  have "mset (snd (shuffle_split perm n k (n - k)) @ fst (shuffle_split perm n k (n - k)))
          = mset [0..<n]"
    using assms by (simp only: shuffle_split_append)
  then show ?thesis by (simp add: add.commute)
qed

lemma shuffle_split_disjoint:
  assumes "mset (perm n) = mset [0..<n]" and "k \<le> n"
  shows "set (fst (shuffle_split perm n k (n - k))) \<inter> set (snd (shuffle_split perm n k (n - k))) = {}"
proof -
  have "distinct (snd (shuffle_split perm n k (n - k)) @ fst (shuffle_split perm n k (n - k)))"
    using assms by (simp only: shuffle_split_append perm_distinct)
  then show ?thesis by auto
qed

lemma shuffle_split_bound:
  assumes "mset (perm n) = mset [0..<n]" and "k \<le> n"
  shows "\<forall>i \<in> set (fst (shuffle_split perm n k (n - k))) \<union> set (snd (shuffle_split perm n k (n - k))). i < n"
proof -
  have "set (snd (shuffle_split perm n k (n - k)) @ fst (shuffle_split perm n k (n - k))) = {0..<n}"
    using assms by (simp only: shuffle_split_append perm_set)
  then show ?thesis by auto
qed

lemma mset_index_select:
  assumes "mset is + mset js = mset [0..<length xs]"
  shows "mset (map (\<lambda>i. xs ! i) is) + mset (map (\<lambda>i. xs ! i) js) = mset xs"
proof -
  have "mset (map (\<lambda>i. xs ! i) is) + mset (map (\<lambda>i. xs ! i) js)
          = image_mset (\<lambda>i. xs ! i) (mset is + mset js)"
    by simp
  also have "\<dots> = mset (map (\<lambda>i. xs ! i) [0..<length xs])"
    by (simp only: assms mset_map)
  also have "\<dots> = mset xs" by (simp add: map_nth)
  finally show ?thesis .
qed

text \<open>
  Claim C1, as the code has it. \<^verbatim>\<open>Dataset.train_test_split(df, train_ratio, ...)\<close> on a
  dataframe in the documented form (no column label twice, one cell per row in every
  column, an \<open>img\<close> column and an integer \<open>label\<close> column), with
  \<open>train_ratio < 1\<close> and a computed size \<open>k = int(n * train_ratio)\<close> with \<open>1 \<le> k < n\<close>,
  returns two datasets on two new dataframes: the rows of \<open>df\<close> at two disjoint lists of
  positions that together are the positions \<open>0..<n\<close> (so their row labels together are
  the row labels of \<open>df\<close>), each with the \<open>label\<close> column cast to int64; the train part
  has \<open>k\<close> rows and the eval part \<open>n - k\<close>; the modes are \<open>train\<close> and \<open>eval\<close>, and the
  caller's dataframe is not touched.
\<close>

theorem train_test_split_partition:
  fixes h :: heap and a :: addr and fl :: "rat \<Rightarrow> rat" and train_ratio :: rat
    and perm :: "nat \<Rightarrow> nat list" and config :: 'cfg
  defines "k \<equiv> nat (train_set_size fl (nrows (h ! a)) train_ratio)"
  defines "inds \<equiv> shuffle_split perm (nrows (h ! a)) k (nrows (h ! a) - k)"
  assumes addr: "a < length h"
    and wf: "wf_df (h ! a)"
    and img: "''img'' \<in> set (columns (h ! a))"
    and label: "map_of (cols (h ! a)) ''label'' = Some c" "issubdtype_integer (col_dtype c)"
    and perm: "mset (perm (nrows (h ! a))) = mset [0..<nrows (h ! a)]"
    and ratio: "train_ratio < 1"
    and size: "1 \<le> train_set_size fl (nrows (h ! a)) train_ratio"
              "train_set_size fl (nrows (h ! a)) train_ratio < int (nrows (h ! a))"
  shows "\<exists>h' train_set eval_set.
      train_test_split fl (sk_train_test_split perm) h a train_ratio config transforms_f
          default_modes = Inr (h', train_set, eval_set)
    \<and> h' ! ds_df train_set = cast_label (iloc (h ! a) (fst inds))
    \<and> h' ! ds_df eval_set = cast_label (iloc (h ! a) (snd inds))
    \<and> set (fst inds) \<inter> set (snd inds) = {}
    \<and> mset (fst inds) + mset (snd inds) = mset [0..<nrows (h ! a)]
    \<and> mset (index (h' ! ds_df train_set)) + mset (index (h' ! ds_df eval_set)) = mset (index (h ! a))
    \<and> int (nrows (h' ! ds_df train_set)) = train_set_size fl (nrows (h ! a)) train_ratio
    \<and> int (nrows (h' ! ds_df eval_set))
         = int (nrows (h ! a)) - train_set_size fl (nrows (h ! a)) train_ratio
    \<and> ds_df train_set \<noteq> ds_df eval_set
    \<and> ds_mode train_set = ''train'' \<and> ds_mode eval_set = ''eval''
    \<and> h' ! a = h ! a"
proof -
  let ?d = "h ! a"
  let ?n = "nrows ?d"
  have kn: "k \<le> ?n" using size by (simp add: k_def)
  have pos: "0 < train_set_size fl ?n train_ratio" using size(1) by simp
  have res: "train_test_split fl (sk_train_test_split perm) h a train_ratio config transforms_f
      (''train'', ''eval'') =
     Inr (h @ [cast_label (iloc ?d (fst inds)), cast_label (iloc ?d (snd inds))],
       \<lparr>ds_mode = ''train'', ds_df = length h,
        ds_transform =
          (case fst (case transforms_f of None \<Rightarrow> (None, None) | Some p \<Rightarrow> p) of
             None \<Rightarrow> if ''train'' = ''train'' then TRAIN_TRANSFORM else EVAL_TRANSFORM
           | Some t \<Rightarrow> t),
        ds_config = config\<rparr>,
       \<lparr>ds_mode = ''eval'', ds_df = Suc (length h),
        ds_transform =
          (case snd (case transforms_f of None \<Rightarrow> (None, None) | Some p \<Rightarrow> p) of
             None \<Rightarrow> if ''eval'' = ''train'' then TRAIN_TRANSFORM else EVAL_TRANSFORM
           | Some t \<Rightarrow> t),
        ds_config = config\<rparr>)"
    by (rule train_test_split_ok [OF ratio pos size(2) img label _ _ k_def [THEN meta_eq_to_obj_eq]
          inds_def [THEN meta_eq_to_obj_eq]]) simp_all
  have len: "length (fst inds) = k" "length (snd inds) = ?n - k"
    unfolding inds_def using shuffle_split_length [of perm ?n k, OF perm kn] by simp_all
  have disj: "set (fst inds) \<inter> set (snd inds) = {}"
    unfolding inds_def by (rule shuffle_split_disjoint [of perm ?n k, OF perm kn])
  have part: "mset (fst inds) + mset (snd inds) = mset [0..<?n]"
    unfolding inds_def by (rule shuffle_split_mset [of perm ?n k, OF perm kn])
  have labels: "mset (map (\<lambda>i. index ?d ! i) (fst inds)) + mset (map (\<lambda>i. index ?d ! i) (snd inds))
      = mset (index ?d)"
    by (rule mset_index_select) (simp add: part [unfolded nrows_def])
  have k_int: "int k = train_set_size fl ?n train_ratio"
    using size(1) by (simp add: k_def)
  show ?thesis
    unfolding default_modes_def res
    using addr disj part labels len k_int kn
    by (simp add: nth_append index_cast_label index_iloc nrows_cast_label nrows_iloc)
qed


lemma nrows_df4: "nrows df4 = 4"
  by (simp add: nrows_def df4_def)

lemma wf_df4: "wf_df df4"
  by (simp add: wf_df_def columns_def nrows_def df4_def)

theorem train_test_split_partition_witness:
  "\<exists>h' train_set eval_set.
      train_test_split binary64 (sk_train_test_split (\<lambda>n. rev [0..<n])) [df4] 0 (1 / 2) ()
          None default_modes = Inr (h', train_set, eval_set)
    \<and> index (h' ! ds_df train_set) = [11, 10]
    \<and> index (h' ! ds_df eval_set) = [13, 12]
    \<and> nrows (h' ! ds_df train_set) = 2
    \<and> nrows (h' ! ds_df eval_set) = 2"
proof -
  have addr: "0 < length [df4]" by simp
  have wf: "wf_df ([df4] ! 0)" by (simp add: wf_df4)
  have img: "''img'' \<in> set (columns ([df4] ! 0))"
    by (simp add: columns_def df4_def)
  have label: "map_of (cols ([df4] ! 0)) ''label'' =
      Some \<lparr>col_dtype = Int32, col_cells = [IntC 0, IntC 1, IntC 2, IntC 1]\<rparr>"
    by (simp add: df4_def)
  have dt: "issubdtype_integer
      (col_dtype \<lparr>col_dtype = Int32, col_cells = [IntC 0, IntC 1, IntC 2, IntC 1]\<rparr>)"
    by simp
  have perm: "mset ((\<lambda>n. rev [0..<n]) (nrows ([df4] ! 0))) = mset [0..<nrows ([df4] ! 0)]"
    by simp
  have ratio: "(1 / 2 :: rat) < 1" by simp
  have size_val: "train_set_size binary64 4 (1 / 2) = 2"
    by (simp add: binary64_exact train_set_size_def py_int_def)
  have size: "1 \<le> train_set_size binary64 (nrows ([df4] ! 0)) (1 / 2)"
    "train_set_size binary64 (nrows ([df4] ! 0)) (1 / 2) < int (nrows ([df4] ! 0))"
    by (simp_all add: size_val nrows_df4)
  have split_val: "shuffle_split (\<lambda>n. rev [0..<n]) 4 2 2 = ([1, 0], [3, 2])"
    by code_simp
  from train_test_split_partition [where h = "[df4]" and a = 0 and fl = binary64
      and perm = "\<lambda>n. rev [0..<n]" and train_ratio = "1 / 2" and config = "()"
      and transforms_f = None, OF addr wf img label dt perm ratio size]
  obtain h' train_set eval_set where
    res: "train_test_split binary64 (sk_train_test_split (\<lambda>n. rev [0..<n])) [df4] 0 (1 / 2) ()
          None default_modes = Inr (h', train_set, eval_set)"
    and t: "h' ! ds_df train_set = cast_label (iloc ([df4] ! 0)
        (fst (shuffle_split (\<lambda>n. rev [0..<n]) (nrows ([df4] ! 0))
          (nat (train_set_size binary64 (nrows ([df4] ! 0)) (1 / 2)))
          (nrows ([df4] ! 0) - nat (train_set_size binary64 (nrows ([df4] ! 0)) (1 / 2))))))"
    and e: "h' ! ds_df eval_set = cast_label (iloc ([df4] ! 0)
        (snd (shuffle_split (\<lambda>n. rev [0..<n]) (nrows ([df4] ! 0))
          (nat (train_set_size binary64 (nrows ([df4] ! 0)) (1 / 2)))
          (nrows ([df4] ! 0) - nat (train_set_size binary64 (nrows ([df4] ! 0)) (1 / 2))))))"
    by blast
  have t': "h' ! ds_df train_set = cast_label (iloc df4 [1, 0])"
    using t by (simp add: nrows_df4 size_val split_val)
  have e': "h' ! ds_df eval_set = cast_label (iloc df4 [3, 2])"
    using e by (simp add: nrows_df4 size_val split_val)
  show ?thesis
    using res by (simp add: t' e' index_cast_label index_iloc nrows_cast_label nrows_iloc df4_def)
qed

text \<open>
  Claim C1 as stated admits \<open>train_ratio = 0\<close>. There the computed size is \<open>0\<close>
  (\<open>n * 0.0\<close> is exact in floating point), which scikit-learn rejects: no pair of datasets
  is returned.
\<close>

theorem train_test_split_ratio_zero_counterexample:
  "(0 :: rat) \<le> 0 \<and> (0 :: rat) < 1 \<and> wf_df df4 \<and>
   train_test_split binary64 (sk_train_test_split (\<lambda>n. rev [0..<n])) [df4] 0 0 ()
       None default_modes = Inl (ValueError ''train_size'')"
  by (simp add: binary64_exact train_test_split_def sk_train_test_split_def train_set_size_def py_int_def
      wf_df_def columns_def nrows_def df4_def)


lemma map_of_cast_label:
  "map_of (cols d) ''label'' = Some c \<Longrightarrow>
   map_of (cols (cast_label d)) ''label'' = Some (astype_int64 c)"
  by (simp add: cast_label_def map_of_setitem map_of_in_columns)

lemma mset_compose_select:
  assumes "mset js + mset ks = mset [0..<length is]"
  shows "mset (map (\<lambda>j. is ! j) js) + mset (map (\<lambda>j. is ! j) ks) = mset is"
  using assms by (rule mset_index_select)

text \<open>The two splits of \<^verbatim>\<open>Dataset.split\<close>, when every check on the way passes.\<close>

lemma split_ok:
  fixes h :: heap and a :: addr and fl :: "rat \<Rightarrow> rat" and r0 r1 vr :: rat
    and perm :: "nat \<Rightarrow> nat list" and config :: 'cfg
  defines "n \<equiv> nrows (h ! a)"
  defines "k1 \<equiv> train_set_size fl n r0"
  defines "k2 \<equiv> train_set_size fl (n - nat k1) vr"
  assumes addr: "a < length h"
    and wf: "wf_df (h ! a)"
    and img: "''img'' \<in> set (columns (h ! a))"
    and label: "map_of (cols (h ! a)) ''label'' = Some c" "issubdtype_integer (col_dtype c)"
    and perm: "\<forall>m. mset (perm m) = mset [0..<m]"
    and sum: "sumation fl (r0, r1) \<le> 1"
    and ratio: "r0 < 1"
    and size1: "1 \<le> k1" "k1 < int n"
    and vr: "valid_set_ratio fl (r0, r1) = Inr vr" "vr < 1"
    and size2: "1 \<le> k2" "k2 < int n - k1"
  shows "\<exists>h' train_set valid_set test_set p1 p2 p3.
      split fl (sk_train_test_split perm) h a (r0, r1) config transforms_f
        = Inr (h', train_set, valid_set, test_set)
    \<and> h' ! ds_df train_set = cast_label (iloc (h ! a) p1)
    \<and> h' ! ds_df valid_set = cast_label (iloc (h ! a) p2)
    \<and> h' ! ds_df test_set = cast_label (iloc (h ! a) p3)
    \<and> mset p1 + mset p2 + mset p3 = mset [0..<n]
    \<and> mset (index (h' ! ds_df train_set)) + mset (index (h' ! ds_df valid_set))
        + mset (index (h' ! ds_df test_set)) = mset (index (h ! a))
    \<and> int (nrows (h' ! ds_df train_set)) = k1
    \<and> int (nrows (h' ! ds_df valid_set)) = k2
    \<and> int (nrows (h' ! ds_df test_set)) = int n - k1 - k2
    \<and> distinct [ds_df train_set, ds_df valid_set, ds_df test_set]
    \<and> ds_mode train_set = ''train'' \<and> ds_mode valid_set = ''eval''
    \<and> ds_mode test_set = ''eval''
    \<and> h' ! a = h ! a"
proof -
  let ?d = "h ! a"
  define m1 where "m1 = nat k1"
  define I where "I = shuffle_split perm n m1 (n - m1)"
  define E where "E = cast_label (iloc ?d (snd I))"
  define T where "T = cast_label (iloc ?d (fst I))"
  define h1 where "h1 = h @ [T, E]"
  define m2 where "m2 = nat k2"
  define J where "J = shuffle_split perm (n - m1) m2 (n - m1 - m2)"
  have permn: "mset (perm m) = mset [0..<m]" for m using perm by simp
  have m1n: "m1 \<le> n" using size1 by (simp add: m1_def)
  have m2n: "m2 \<le> n - m1" using size1 size2 by (simp add: m2_def m1_def)
  have pos1: "0 < train_set_size fl (nrows ?d) r0" using size1(1) by (simp add: k1_def n_def)
  have lt1: "train_set_size fl (nrows ?d) r0 < int (nrows ?d)"
    using size1(2) by (simp add: k1_def n_def)
  \<comment> \<open>the first split\<close>
  have first: "train_test_split fl (sk_train_test_split perm) h a r0 config transforms_f
      (''train'', ''eval'') =
     Inr (h1,
       \<lparr>ds_mode = ''train'', ds_df = length h,
        ds_transform =
          (case fst (case transforms_f of None \<Rightarrow> (None, None) | Some p \<Rightarrow> p) of
             None \<Rightarrow> if ''train'' = ''train'' then TRAIN_TRANSFORM else EVAL_TRANSFORM
           | Some t \<Rightarrow> t),
        ds_config = config\<rparr>,
       \<lparr>ds_mode = ''eval'', ds_df = Suc (length h),
        ds_transform =
          (case snd (case transforms_f of None \<Rightarrow> (None, None) | Some p \<Rightarrow> p) of
             None \<Rightarrow> if ''eval'' = ''train'' then TRAIN_TRANSFORM else EVAL_TRANSFORM
           | Some t \<Rightarrow> t),
        ds_config = config\<rparr>)"
    unfolding h1_def T_def E_def
    by (rule train_test_split_ok [OF ratio pos1 lt1 img label])
      (simp_all add: m1_def k1_def n_def I_def)
  \<comment> \<open>the dataframe of the eval set\<close>
  have lenI: "length (fst I) = m1" "length (snd I) = n - m1"
    unfolding I_def using shuffle_split_length [of perm n m1, OF permn m1n] by simp_all
  have E_at: "h1 ! Suc (length h) = E" by (simp add: h1_def nth_append)
  have E_rows: "nrows E = n - m1"
    by (simp add: E_def nrows_cast_label nrows_iloc lenI)
  have E_img: "''img'' \<in> set (columns (h1 ! Suc (length h)))"
    using img by (simp add: E_at E_def columns_cast_label columns_iloc)
  have E_label: "map_of (cols (h1 ! Suc (length h))) ''label'' =
      Some (astype_int64 \<lparr>col_dtype = col_dtype c,
                           col_cells = map (\<lambda>i. col_cells c ! i) (snd I)\<rparr>)"
    unfolding E_at E_def by (rule map_of_cast_label) (simp add: map_of_iloc label(1))
  have E_dt: "issubdtype_integer (col_dtype (astype_int64 \<lparr>col_dtype = col_dtype c,
                           col_cells = map (\<lambda>i. col_cells c ! i) (snd I)\<rparr>))"
    by (simp add: astype_int64_def)
  have k2_eq: "train_set_size fl (nrows (h1 ! Suc (length h))) vr = k2"
    by (simp add: E_at E_rows k2_def m1_def)
  have pos2: "0 < train_set_size fl (nrows (h1 ! Suc (length h))) vr"
    using size2(1) by (simp add: k2_eq)
  have lt2: "train_set_size fl (nrows (h1 ! Suc (length h))) vr < int (nrows (h1 ! Suc (length h)))"
    unfolding k2_eq unfolding E_at E_rows using size2(2) size1 by (simp add: m1_def)
  \<comment> \<open>the second split\<close>
  have m2_eq: "m2 = nat (train_set_size fl (nrows (h1 ! Suc (length h))) vr)"
    unfolding k2_eq by (simp add: m2_def)
  have J_eq: "J = shuffle_split perm (nrows (h1 ! Suc (length h))) m2
      (nrows (h1 ! Suc (length h)) - m2)"
    unfolding E_at E_rows by (simp add: J_def)
  have second: "train_test_split fl (sk_train_test_split perm) h1 (Suc (length h)) vr config
      transforms_f (''eval'', ''eval'') =
     Inr (h1 @ [cast_label (iloc (h1 ! Suc (length h)) (fst J)),
                cast_label (iloc (h1 ! Suc (length h)) (snd J))],
       \<lparr>ds_mode = ''eval'', ds_df = length h1,
        ds_transform =
          (case fst (case transforms_f of None \<Rightarrow> (None, None) | Some p \<Rightarrow> p) of
             None \<Rightarrow> if ''eval'' = ''train'' then TRAIN_TRANSFORM else EVAL_TRANSFORM
           | Some t \<Rightarrow> t),
        ds_config = config\<rparr>,
       \<lparr>ds_mode = ''eval'', ds_df = Suc (length h1),
        ds_transform =
          (case snd (case transforms_f of None \<Rightarrow> (None, None) | Some p \<Rightarrow> p) of
             None \<Rightarrow> if ''eval'' = ''train'' then TRAIN_TRANSFORM else EVAL_TRANSFORM
           | Some t \<Rightarrow> t),
        ds_config = config\<rparr>)"
    by (rule train_test_split_ok [OF vr(2) pos2 lt2 E_img E_label E_dt _ _ m2_eq J_eq]) simp_all
  \<comment> \<open>the rows of the valid and the test set, as rows of the caller's dataframe\<close>
  have boundI: "\<forall>i \<in> set (fst I) \<union> set (snd I). i < n"
    unfolding I_def by (rule shuffle_split_bound [of perm n m1, OF permn m1n])
  have boundJ: "\<forall>j \<in> set (fst J) \<union> set (snd J). j < n - m1"
    unfolding J_def by (rule shuffle_split_bound [of perm "n - m1" m2, OF permn m2n])
  have wfI: "wf_df (iloc ?d (snd I))"
  proof (rule wf_df_iloc)
    show "distinct (columns ?d)" using wf by (simp add: wf_df_def)
  qed
  have orig_rows: "cast_label (iloc E js) = cast_label (iloc ?d (map (\<lambda>j. snd I ! j) js))"
    if bound: "\<forall>j \<in> set js. j < n - m1" for js
  proof -
    note that = bound
    have "iloc E js = cast_label (iloc (iloc ?d (snd I)) js)"
      unfolding E_def using that
      by (simp add: cast_label_iloc [OF wfI] nrows_iloc lenI)
    also have "iloc (iloc ?d (snd I)) js = iloc ?d (map (\<lambda>j. snd I ! j) js)"
      using that by (simp add: iloc_iloc lenI)
    finally show ?thesis by (simp add: cast_label_idem)
  qed
  have valid_rows: "cast_label (iloc E (fst J)) = cast_label (iloc ?d (map (\<lambda>j. snd I ! j) (fst J)))"
    using boundJ by (intro orig_rows) simp
  have test_rows: "cast_label (iloc E (snd J)) = cast_label (iloc ?d (map (\<lambda>j. snd I ! j) (snd J)))"
    using boundJ by (intro orig_rows) simp
  \<comment> \<open>the three position lists partition the positions\<close>
  have partI: "mset (fst I) + mset (snd I) = mset [0..<n]"
    unfolding I_def by (rule shuffle_split_mset [of perm n m1, OF permn m1n])
  have partJ: "mset (fst J) + mset (snd J) = mset [0..<length (snd I)]"
    unfolding J_def lenI by (rule shuffle_split_mset [of perm "n - m1" m2, OF permn m2n])
  have partIJ: "mset (map (\<lambda>j. snd I ! j) (fst J)) + mset (map (\<lambda>j. snd I ! j) (snd J)) = mset (snd I)"
    using partJ by (rule mset_index_select)
  have part: "mset (fst I) + mset (map (\<lambda>j. snd I ! j) (fst J))
      + mset (map (\<lambda>j. snd I ! j) (snd J)) = mset [0..<n]"
    using partI partIJ by (simp add: add.assoc)
  have lenJ: "length (fst J) = m2" "length (snd J) = n - m1 - m2"
    unfolding J_def using shuffle_split_length [of perm "n - m1" m2, OF permn m2n] by simp_all
  have labels: "mset (map (\<lambda>i. index ?d ! i) (fst I))
      + mset (map (\<lambda>i. index ?d ! i) (map (\<lambda>j. snd I ! j) (fst J)))
      + mset (map (\<lambda>i. index ?d ! i) (map (\<lambda>j. snd I ! j) (snd J))) = mset (index ?d)"
  proof -
    have "mset (map (\<lambda>i. index ?d ! i) (fst I))
      + mset (map (\<lambda>i. index ?d ! i) (map (\<lambda>j. snd I ! j) (fst J)))
      + mset (map (\<lambda>i. index ?d ! i) (map (\<lambda>j. snd I ! j) (snd J)))
      = image_mset (\<lambda>i. index ?d ! i) (mset (fst I) + mset (map (\<lambda>j. snd I ! j) (fst J))
          + mset (map (\<lambda>j. snd I ! j) (snd J)))"
      by (simp add: multiset.map_comp)
    also have "\<dots> = image_mset (\<lambda>i. index ?d ! i) (mset [0..<n])"
      by (simp only: part)
    also have "\<dots> = mset (map (\<lambda>i. index ?d ! i) [0..<length (index ?d)])"
      by (simp add: n_def nrows_def)
    also have "\<dots> = mset (index ?d)" by (simp add: map_nth)
    finally show ?thesis .
  qed
  let ?p2 = "map (\<lambda>j. snd I ! j) (fst J)" and ?p3 = "map (\<lambda>j. snd I ! j) (snd J)"
  let ?H = "h @ [T, E, cast_label (iloc ?d ?p2), cast_label (iloc ?d ?p3)]"
  let ?tr = "\<lparr>ds_mode = ''train'', ds_df = length h,
        ds_transform =
          (case fst (case transforms_f of None \<Rightarrow> (None, None) | Some p \<Rightarrow> p) of
             None \<Rightarrow> TRAIN_TRANSFORM | Some t \<Rightarrow> t),
        ds_config = config\<rparr>"
  let ?va = "\<lparr>ds_mode = ''eval'', ds_df = Suc (Suc (length h)),
        ds_transform =
          (case fst (case transforms_f of None \<Rightarrow> (None, None) | Some p \<Rightarrow> p) of
             None \<Rightarrow> EVAL_TRANSFORM | Some t \<Rightarrow> t),
        ds_config = config\<rparr>"
  let ?te = "\<lparr>ds_mode = ''eval'', ds_df = Suc (Suc (Suc (length h))),
        ds_transform =
          (case snd (case transforms_f of None \<Rightarrow> (None, None) | Some p \<Rightarrow> p) of
             None \<Rightarrow> EVAL_TRANSFORM | Some t \<Rightarrow> t),
        ds_config = config\<rparr>"
  have res: "split fl (sk_train_test_split perm) h a (r0, r1) config transforms_f =
      Inr (?H, ?tr, ?va, ?te)"
    unfolding split_def default_modes_def using sum
    by (simp add: first vr(1) second E_at valid_rows test_rows) (simp add: h1_def)
  have k1_int: "int m1 = k1" using size1 by (simp add: m1_def)
  have k2_int: "int m2 = k2" using size2 by (simp add: m2_def)
  have at_tr: "?H ! ds_df ?tr = cast_label (iloc ?d (fst I))" by (simp add: T_def)
  have at_va: "?H ! ds_df ?va = cast_label (iloc ?d ?p2)" by (simp add: nth_append)
  have at_te: "?H ! ds_df ?te = cast_label (iloc ?d ?p3)" by (simp add: nth_append)
  have at_a: "?H ! a = ?d" using addr by (simp add: nth_append)
  have rows_tr: "int (nrows (cast_label (iloc ?d (fst I)))) = k1"
    by (simp add: nrows_cast_label nrows_iloc lenI k1_int)
  have rows_va: "int (nrows (cast_label (iloc ?d ?p2))) = k2"
    by (simp add: nrows_cast_label nrows_iloc lenJ k2_int)
  have rows_te: "int (nrows (cast_label (iloc ?d ?p3))) = int n - k1 - k2"
    using m1n m2n k1_int k2_int by (simp add: nrows_cast_label nrows_iloc lenJ)
  have labels': "mset (index (cast_label (iloc ?d (fst I)))) + mset (index (cast_label (iloc ?d ?p2)))
      + mset (index (cast_label (iloc ?d ?p3))) = mset (index ?d)"
    using labels by (simp only: index_cast_label index_iloc)
  have body: "split fl (sk_train_test_split perm) h a (r0, r1) config transforms_f
        = Inr (?H, ?tr, ?va, ?te)
    \<and> ?H ! ds_df ?tr = cast_label (iloc (h ! a) (fst I))
    \<and> ?H ! ds_df ?va = cast_label (iloc (h ! a) ?p2)
    \<and> ?H ! ds_df ?te = cast_label (iloc (h ! a) ?p3)
    \<and> mset (fst I) + mset ?p2 + mset ?p3 = mset [0..<n]
    \<and> mset (index (?H ! ds_df ?tr)) + mset (index (?H ! ds_df ?va))
        + mset (index (?H ! ds_df ?te)) = mset (index (h ! a))
    \<and> int (nrows (?H ! ds_df ?tr)) = k1
    \<and> int (nrows (?H ! ds_df ?va)) = k2
    \<and> int (nrows (?H ! ds_df ?te)) = int n - k1 - k2
    \<and> distinct [ds_df ?tr, ds_df ?va, ds_df ?te]
    \<and> ds_mode ?tr = ''train'' \<and> ds_mode ?va = ''eval''
    \<and> ds_mode ?te = ''eval''
    \<and> ?H ! a = h ! a"
    unfolding at_tr at_va at_te at_a
    using res part labels' rows_tr rows_va rows_te by simp
  show ?thesis
    by (rule exI [of _ ?H], rule exI [of _ ?tr], rule exI [of _ ?va], rule exI [of _ ?te],
        rule exI [of _ "fst I"], rule exI [of _ ?p2], rule exI [of _ ?p3], rule body)
qed

text \<open>
  Claim C2, as the code has it. \<^verbatim>\<open>Dataset.split(df, (r0, r1), ...)\<close> on a dataframe in the
  documented form (an \<open>img\<close> column, an integer \<open>label\<close> column) with \<open>n\<close> rows returns three
  datasets when every check on the way passes: the computed sum is at most \<open>1\<close>,
  \<open>r0 < 1\<close>, the first size \<open>k1 = int(n * r0)\<close> has \<open>1 \<le> k1 < n\<close>, the computed ratio
  \<open>vr = r1 / (1 - r0)\<close> is below \<open>1\<close>, and the second size \<open>k2 = int((n - k1) * vr)\<close> has
  \<open>1 \<le> k2 < n - k1\<close>. The three dataframes hold the rows of \<open>df\<close> at three position lists
  that partition the positions \<open>0..<n\<close> (\<open>label\<close> cast to int64); train has \<open>k1\<close> rows,
  valid \<open>k2\<close> and test the remaining ones; train is in mode \<open>train\<close>, valid and test in
  mode \<open>eval\<close>.
\<close>

theorem split_partition:
  fixes h :: heap and a :: addr and fl :: "rat \<Rightarrow> rat" and r0 r1 vr :: rat
    and perm :: "nat \<Rightarrow> nat list" and config :: 'cfg
  defines "n \<equiv> nrows (h ! a)"
  defines "k1 \<equiv> train_set_size fl n r0"
  defines "k2 \<equiv> train_set_size fl (n - nat k1) vr"
  assumes addr: "a < length h"
    and wf: "wf_df (h ! a)"
    and img: "''img'' \<in> set (columns (h ! a))"
    and label: "map_of (cols (h ! a)) ''label'' = Some c" "issubdtype_integer (col_dtype c)"
    and perm: "\<forall>m. mset (perm m) = mset [0..<m]"
    and sum: "sumation fl (r0, r1) \<le> 1"
    and ratio: "r0 < 1"
    and size1: "1 \<le> k1" "k1 < int n"
    and vr: "valid_set_ratio fl (r0, r1) = Inr vr" "vr < 1"
    and size2: "1 \<le> k2" "k2 < int n - k1"
  shows "\<exists>h' train_set valid_set test_set p1 p2 p3.
      split fl (sk_train_test_split perm) h a (r0, r1) config transforms_f
        = Inr (h', train_set, valid_set, test_set)
    \<and> h' ! ds_df train_set = cast_label (iloc (h ! a) p1)
    \<and> h' ! ds_df valid_set = cast_label (iloc (h ! a) p2)
    \<and> h' ! ds_df test_set = cast_label (iloc (h ! a) p3)
    \<and> mset p1 + mset p2 + mset p3 = mset [0..<n]
    \<and> mset (index (h' ! ds_df train_set)) + mset (index (h' ! ds_df valid_set))
        + mset (index (h' ! ds_df test_set)) = mset (index (h ! a))
    \<and> int (nrows (h' ! ds_df train_set)) = k1
    \<and> int (nrows (h' ! ds_df valid_set)) = k2
    \<and> int (nrows (h' ! ds_df test_set)) = int n - k1 - k2
    \<and> distinct [ds_df train_set, ds_df valid_set, ds_df test_set]
    \<and> ds_mode train_set = ''train'' \<and> ds_mode valid_set = ''eval''
    \<and> ds_mode test_set = ''eval''
    \<and> h' ! a = h ! a"
  using addr wf img label perm sum ratio size1 vr size2
  unfolding n_def k1_def k2_def by (rule split_ok)

text \<open>
  The ratios of the repository's own calls, \<^verbatim>\<open>split_ratio=[0.7, 0.15]\<close>, and the pair
  \<^verbatim>\<open>(0.7, 0.3)\<close>, in binary64 arithmetic.
\<close>

lemma float_literals:
  "binary64 (7 / 10) = float_0_7" "binary64 (3 / 10) = float_0_3"
  "binary64 (15 / 100) = float_0_15"
  unfolding float_0_7_def float_0_3_def float_0_15_def by code_simp+

lemma float_below_one: "float_0_7 < 1"
  unfolding float_0_7_def by simp

lemma float_sum_inexact: "float_0_7 + float_0_3 \<noteq> 1"
  unfolding float_0_7_def float_0_3_def by simp

lemma nrows_df10: "nrows df10 = 10"
  by (simp add: nrows_def df10_def)

lemma wf_df10: "wf_df df10"
  by (simp add: wf_df_def columns_def nrows_def df10_def)

lemma sumation_0_7_0_15: "sumation binary64 (float_0_7, float_0_15) \<le> 1"
  unfolding sumation_def float_0_7_def float_0_15_def fst_conv snd_conv by code_simp

lemma valid_set_ratio_0_7_0_15:
  "valid_set_ratio binary64 (float_0_7, float_0_15) = Inr (4503599627370495 / 9007199254740992)"
  unfolding valid_set_ratio_def float_0_7_def float_0_15_def fst_conv snd_conv by code_simp

lemma train_set_size_0_7:
  "train_set_size binary64 10 float_0_7 = 7"
  "train_set_size binary64 4 float_0_7 = 2"
  unfolding train_set_size_def float_0_7_def by code_simp+

lemma train_set_size_0_15: "train_set_size binary64 3 (4503599627370495 / 9007199254740992) = 1"
  unfolding train_set_size_def by code_simp

lemma sumation_0_7_0_3: "sumation binary64 (float_0_7, float_0_3) = 1"
  unfolding sumation_def float_0_7_def float_0_3_def fst_conv snd_conv by code_simp

lemma valid_set_ratio_0_7_0_3:
  "valid_set_ratio binary64 (float_0_7, float_0_3) = Inr (4503599627370495 / 4503599627370496)"
  unfolding valid_set_ratio_def float_0_7_def float_0_3_def fst_conv snd_conv by code_simp

lemma train_set_size_0_3: "train_set_size binary64 2 (4503599627370495 / 4503599627370496) = 1"
  unfolding train_set_size_def by code_simp

text \<open>
  Ten rows split with \<^verbatim>\<open>(0.7, 0.15)\<close>: seven rows for train, one for valid (the computed
  ratio is a float just below \<open>0.5\<close>), two for test.
\<close>

theorem split_partition_witness:
  "\<exists>h' train_set valid_set test_set.
      split binary64 (sk_train_test_split (\<lambda>n. rev [0..<n])) [df10] 0 (float_0_7, float_0_15)
        () None = Inr (h', train_set, valid_set, test_set)
    \<and> nrows (h' ! ds_df train_set) = 7
    \<and> nrows (h' ! ds_df valid_set) = 1
    \<and> nrows (h' ! ds_df test_set) = 2
    \<and> ds_mode train_set = ''train'' \<and> ds_mode valid_set = ''eval''
    \<and> ds_mode test_set = ''eval''"
proof -
  let ?vr = "4503599627370495 / 9007199254740992 :: rat"
  have addr: "0 < length [df10]" by simp
  have wf: "wf_df ([df10] ! 0)" by (simp add: wf_df10)
  have img: "''img'' \<in> set (columns ([df10] ! 0))"
    by (simp add: columns_def df10_def)
  have label: "map_of (cols ([df10] ! 0)) ''label'' =
      Some \<lparr>col_dtype = Int64,
            col_cells = [IntC 0, IntC 1, IntC 2, IntC 0, IntC 1, IntC 2, IntC 0, IntC 1,
                         IntC 2, IntC 0]\<rparr>"
    by (simp add: df10_def)
  have dt: "issubdtype_integer
      (col_dtype \<lparr>col_dtype = Int64,
            col_cells = [IntC 0, IntC 1, IntC 2, IntC 0, IntC 1, IntC 2, IntC 0, IntC 1,
                         IntC 2, IntC 0]\<rparr>)"
    by simp
  have perm: "\<forall>m. mset ((\<lambda>n. rev [0..<n]) m) = mset [0..<m]" by simp
  have size1: "1 \<le> train_set_size binary64 (nrows ([df10] ! 0)) float_0_7"
    "train_set_size binary64 (nrows ([df10] ! 0)) float_0_7 < int (nrows ([df10] ! 0))"
    by (simp_all add: nrows_df10 train_set_size_0_7)
  have vr: "?vr < 1" by simp
  have size2: "1 \<le> train_set_size binary64
        (nrows ([df10] ! 0) - nat (train_set_size binary64 (nrows ([df10] ! 0)) float_0_7)) ?vr"
    "train_set_size binary64
        (nrows ([df10] ! 0) - nat (train_set_size binary64 (nrows ([df10] ! 0)) float_0_7)) ?vr
      < int (nrows ([df10] ! 0)) - train_set_size binary64 (nrows ([df10] ! 0)) float_0_7"
    by (simp_all add: nrows_df10 train_set_size_0_7 train_set_size_0_15)
  from split_partition [where h = "[df10]" and a = 0 and fl = binary64
      and perm = "\<lambda>n. rev [0..<n]" and ?r0.0 = float_0_7 and ?r1.0 = float_0_15 and vr = ?vr
      and config = "()" and transforms_f = None,
      OF addr wf img label dt perm sumation_0_7_0_15 float_below_one size1
        valid_set_ratio_0_7_0_15 vr size2]
  obtain h' train_set valid_set test_set where
    res: "split binary64 (sk_train_test_split (\<lambda>n. rev [0..<n])) [df10] 0
        (float_0_7, float_0_15) () None = Inr (h', train_set, valid_set, test_set)"
    and rows: "int (nrows (h' ! ds_df train_set))
        = train_set_size binary64 (nrows ([df10] ! 0)) float_0_7"
      "int (nrows (h' ! ds_df valid_set)) = train_set_size binary64
        (nrows ([df10] ! 0) - nat (train_set_size binary64 (nrows ([df10] ! 0)) float_0_7)) ?vr"
      "int (nrows (h' ! ds_df test_set)) = int (nrows ([df10] ! 0))
          - train_set_size binary64 (nrows ([df10] ! 0)) float_0_7
          - train_set_size binary64
        (nrows ([df10] ! 0) - nat (train_set_size binary64 (nrows ([df10] ! 0)) float_0_7)) ?vr"
    and modes: "ds_mode train_set = ''train''" "ds_mode valid_set = ''eval''"
      "ds_mode test_set = ''eval''"
    by blast
  have "nrows (h' ! ds_df train_set) = 7" "nrows (h' ! ds_df valid_set) = 1"
    "nrows (h' ! ds_df test_set) = 2"
    using rows by (simp_all add: nrows_df10 train_set_size_0_7 train_set_size_0_15)
  with res modes show ?thesis by simp
qed

text \<open>
  Claim C2 as stated admits every pair with \<open>r0 + r1 < 1\<close>. With \<open>(0.5, 0)\<close> the second
  size is \<open>int(2 * 0.0) = 0\<close>, which scikit-learn rejects: no triple is returned.
\<close>

theorem split_no_validation_counterexample:
  "(1 / 2 :: rat) + 0 < 1 \<and> wf_df df4 \<and>
   split binary64 (sk_train_test_split (\<lambda>n. rev [0..<n])) [df4] 0 (1 / 2, 0) () None
     = Inl (ValueError ''train_size'')"
proof -
  have k1: "train_set_size binary64 4 (1 / 2) = 2"
    by (simp add: binary64_exact train_set_size_def py_int_def)
  have inds: "shuffle_split (\<lambda>n. rev [0..<n]) 4 2 2 = ([1, 0], [3, 2])"
    by code_simp
  have first: "train_test_split binary64 (sk_train_test_split (\<lambda>n. rev [0..<n])) [df4] 0 (1 / 2)
      () None (''train'', ''eval'') =
     Inr ([df4, cast_label (iloc df4 [1, 0]), cast_label (iloc df4 [3, 2])],
       \<lparr>ds_mode = ''train'', ds_df = 1, ds_transform = TRAIN_TRANSFORM, ds_config = ()\<rparr>,
       \<lparr>ds_mode = ''eval'', ds_df = 2, ds_transform = EVAL_TRANSFORM, ds_config = ()\<rparr>)"
    using train_test_split_ok [where h = "[df4]" and a = 0 and fl = binary64
        and train_ratio = "1 / 2" and ?m1.0 = "''train''" and ?m2.0 = "''eval''" and k = 2
        and inds = "([1, 0], [3, 2])" and perm = "\<lambda>n. rev [0..<n]" and config = "()"
        and transforms_f = None
        and c = "\<lparr>col_dtype = Int32, col_cells = [IntC 0, IntC 1, IntC 2, IntC 1]\<rparr>"]
    by (simp add: nrows_df4 k1 inds) (simp add: df4_def columns_def)
  have second: "train_test_split binary64 (sk_train_test_split (\<lambda>n. rev [0..<n]))
      hh b 0 () None (''eval'', ''eval'') = Inl (ValueError ''train_size'')" for hh b
    by (simp add: binary64_exact train_test_split_def sk_train_test_split_def train_set_size_def py_int_def)
  show ?thesis
    by (simp add: binary64_exact wf_df4 split_def sumation_def default_modes_def first valid_set_ratio_def second)
qed

text \<open>
  Claim C3, as the code has it. When \<open>r0 + r1\<close> is exactly \<open>1\<close> with \<open>0 < r0 < 1\<close> (and
  rounding leaves the floats \<open>r0\<close>, \<open>r1\<close> and \<open>1\<close> as they are), \<^verbatim>\<open>Dataset.split\<close> never
  returns: the check of the sum passes, the computed ratio \<open>r1 / (1 - r0)\<close> is \<open>1\<close>, and
  the result is the error of the first \<^verbatim>\<open>train_test_split\<close> when that one fails, and
  otherwise the \<^verbatim>\<open>AssertionError\<close> of the inner call's \<^verbatim>\<open>assert train_ratio < 1\<close>.
\<close>

theorem split_sum_one_raises:
  assumes total: "r0 + r1 = 1" and r0: "0 < r0" "r0 < 1"
    and exact: "fl r0 = r0" "fl r1 = r1" "fl 1 = 1"
  shows "split fl sk h a (r0, r1) config transforms_f =
     (case train_test_split fl sk h a r0 config transforms_f default_modes of
        Inl e \<Rightarrow> Inl e
      | Inr res \<Rightarrow> Inl (AssertionError ''train_ratio < 1''))"
proof -
  have r1: "1 - r0 = r1" "r1 \<noteq> 0" using total r0 by auto
  have sum: "sumation fl (r0, r1) = 1"
    by (simp add: sumation_def exact total)
  have vr: "valid_set_ratio fl (r0, r1) = Inr 1"
    by (simp add: valid_set_ratio_def r1 exact)
  have inner: "train_test_split fl sk h1 b 1 config transforms_f modes
      = Inl (AssertionError ''train_ratio < 1'')" for h1 b modes
    by (simp add: train_test_split_def)
  show ?thesis
    by (simp add: split_def sum vr inner split: sum.splits)
qed

text \<open>Four rows with \<open>(0.5, 0.5)\<close>: the first split succeeds, the inner assertion fails.\<close>

theorem split_sum_one_raises_witness:
  "split binary64 (sk_train_test_split (\<lambda>n. rev [0..<n])) [df4] 0 (1 / 2, 1 / 2) () None
     = Inl (AssertionError ''train_ratio < 1'')"
proof -
  have k1: "train_set_size binary64 4 (1 / 2) = 2"
    by (simp add: binary64_exact train_set_size_def py_int_def)
  have inds: "shuffle_split (\<lambda>n. rev [0..<n]) 4 2 2 = ([1, 0], [3, 2])"
    by code_simp
  have first: "train_test_split binary64 (sk_train_test_split (\<lambda>n. rev [0..<n])) [df4] 0 (1 / 2)
      () None (''train'', ''eval'') =
     Inr ([df4, cast_label (iloc df4 [1, 0]), cast_label (iloc df4 [3, 2])],
       \<lparr>ds_mode = ''train'', ds_df = 1, ds_transform = TRAIN_TRANSFORM, ds_config = ()\<rparr>,
       \<lparr>ds_mode = ''eval'', ds_df = 2, ds_transform = EVAL_TRANSFORM, ds_config = ()\<rparr>)"
    using train_test_split_ok [where h = "[df4]" and a = 0 and fl = binary64
        and train_ratio = "1 / 2" and ?m1.0 = "''train''" and ?m2.0 = "''eval''" and k = 2
        and inds = "([1, 0], [3, 2])" and perm = "\<lambda>n. rev [0..<n]" and config = "()"
        and transforms_f = None
        and c = "\<lparr>col_dtype = Int32, col_cells = [IntC 0, IntC 1, IntC 2, IntC 1]\<rparr>"]
    by (simp add: nrows_df4 k1 inds) (simp add: df4_def columns_def)
  have "(1 / 2 :: rat) + 1 / 2 = 1" "(0 :: rat) < 1 / 2" "(1 / 2 :: rat) < 1" by simp_all
  from split_sum_one_raises [where fl = binary64, OF this binary64_exact(3) binary64_exact(3)
      binary64_exact(5), of "sk_train_test_split (\<lambda>n. rev [0..<n])" "[df4]" 0 "()" None]
  show ?thesis by (simp add: default_modes_def first)
qed

text \<open>
  Claim C3 as stated says an assertion error for every dataframe. On a dataframe of one
  row with \<open>(0.5, 0.5)\<close> the first split already fails, inside scikit-learn, with a
  \<^verbatim>\<open>ValueError\<close>: the inner assertion is never reached.
\<close>

theorem split_sum_one_small_counterexample:
  "(1 / 2 :: rat) + 1 / 2 = 1 \<and> (0 :: rat) < 1 / 2 \<and> (1 / 2 :: rat) < 1 \<and> wf_df df1 \<and>
   split binary64 (sk_train_test_split (\<lambda>n. rev [0..<n])) [df1] 0 (1 / 2, 1 / 2) () None
     = Inl (ValueError ''train_size'')"
  by (simp add: binary64_exact split_def sumation_def default_modes_def train_test_split_def
      sk_train_test_split_def train_set_size_def py_int_def wf_df_def columns_def nrows_def df1_def)

text \<open>
  The hypothesis of claim C3 is an exact sum. The floats \<^verbatim>\<open>0.7\<close> and \<^verbatim>\<open>0.3\<close> do not add up
  to \<open>1\<close>, although their float sum rounds to \<^verbatim>\<open>1.0\<close>; the computed ratio is then the
  float just below \<open>1\<close>, and \<^verbatim>\<open>Dataset.split\<close> returns three datasets.
\<close>

lemma split_rounded_sum_returns:
  "float_0_7 + float_0_3 \<noteq> 1
   \<and> sumation binary64 (float_0_7, float_0_3) = 1
   \<and> (\<exists>h' train_set valid_set test_set.
        split binary64 (sk_train_test_split (\<lambda>n. rev [0..<n])) [df4] 0 (float_0_7, float_0_3)
          () None = Inr (h', train_set, valid_set, test_set)
      \<and> nrows (h' ! ds_df train_set) = 2
      \<and> nrows (h' ! ds_df valid_set) = 1
      \<and> nrows (h' ! ds_df test_set) = 1)"
proof -
  let ?vr = "4503599627370495 / 4503599627370496 :: rat"
  have addr: "0 < length [df4]" by simp
  have wf: "wf_df ([df4] ! 0)" by (simp add: wf_df4)
  have img: "''img'' \<in> set (columns ([df4] ! 0))"
    by (simp add: columns_def df4_def)
  have label: "map_of (cols ([df4] ! 0)) ''label'' =
      Some \<lparr>col_dtype = Int32, col_cells = [IntC 0, IntC 1, IntC 2, IntC 1]\<rparr>"
    by (simp add: df4_def)
  have dt: "issubdtype_integer
      (col_dtype \<lparr>col_dtype = Int32, col_cells = [IntC 0, IntC 1, IntC 2, IntC 1]\<rparr>)"
    by simp
  have perm: "\<forall>m. mset ((\<lambda>n. rev [0..<n]) m) = mset [0..<m]" by simp
  have sum: "sumation binary64 (float_0_7, float_0_3) \<le> 1"
    by (simp add: sumation_0_7_0_3)
  have size1: "1 \<le> train_set_size binary64 (nrows ([df4] ! 0)) float_0_7"
    "train_set_size binary64 (nrows ([df4] ! 0)) float_0_7 < int (nrows ([df4] ! 0))"
    by (simp_all add: nrows_df4 train_set_size_0_7)
  have vr: "?vr < 1" by simp
  have size2: "1 \<le> train_set_size binary64
        (nrows ([df4] ! 0) - nat (train_set_size binary64 (nrows ([df4] ! 0)) float_0_7)) ?vr"
    "train_set_size binary64
        (nrows ([df4] ! 0) - nat (train_set_size binary64 (nrows ([df4] ! 0)) float_0_7)) ?vr
      < int (nrows ([df4] ! 0)) - train_set_size binary64 (nrows ([df4] ! 0)) float_0_7"
    by (simp_all add: nrows_df4 train_set_size_0_7 train_set_size_0_3)
  from split_ok [where h = "[df4]" and a = 0 and fl = binary64
      and perm = "\<lambda>n. rev [0..<n]" and ?r0.0 = float_0_7 and ?r1.0 = float_0_3 and vr = ?vr
      and config = "()" and transforms_f = None,
      OF addr wf img label dt perm sum float_below_one size1 valid_set_ratio_0_7_0_3 vr size2]
  obtain h' train_set valid_set test_set where
    res: "split binary64 (sk_train_test_split (\<lambda>n. rev [0..<n])) [df4] 0
        (float_0_7, float_0_3) () None = Inr (h', train_set, valid_set, test_set)"
    and rows: "int (nrows (h' ! ds_df train_set))
        = train_set_size binary64 (nrows ([df4] ! 0)) float_0_7"
      "int (nrows (h' ! ds_df valid_set)) = train_set_size binary64
        (nrows ([df4] ! 0) - nat (train_set_size binary64 (nrows ([df4] ! 0)) float_0_7)) ?vr"
      "int (nrows (h' ! ds_df test_set)) = int (nrows ([df4] ! 0))
          - train_set_size binary64 (nrows ([df4] ! 0)) float_0_7
          - train_set_size binary64
        (nrows ([df4] ! 0) - nat (train_set_size binary64 (nrows ([df4] ! 0)) float_0_7)) ?vr"
    by blast
  have "nrows (h' ! ds_df train_set) = 2" "nrows (h' ! ds_df valid_set) = 1"
    "nrows (h' ! ds_df test_set) = 1"
    using rows by (simp_all add: nrows_df4 train_set_size_0_7 train_set_size_0_3)
  with res show ?thesis
    using float_sum_inexact sumation_0_7_0_3 by blast
qed

text \<open>
  Claim C9. After \<^verbatim>\<open>Dataset(df, config, mode)\<close> with mode \<open>train\<close> or \<open>eval\<close> has built a
  dataset, the dataset refers to the caller's dataframe object itself, and in that object
  the \<open>label\<close> column has dtype int64 and its cells cast to int64, while every other
  column, the order of the columns, the row labels and every other object are as before.
\<close>

theorem Dataset_init_label_cast:
  assumes addr: "a < length h"
    and mode: "mode = ''train'' \<or> mode = ''eval''"
    and built: "Dataset_init h a config mode transform = Inr (h', ds)"
  shows "\<exists>c. map_of (cols (h ! a)) ''label'' = Some c
    \<and> issubdtype_integer (col_dtype c)
    \<and> ds_df ds = a
    \<and> length h' = length h
    \<and> index (h' ! a) = index (h ! a)
    \<and> cols (h' ! a) =
        map (\<lambda>nc. if fst nc = ''label''
                   then (''label'', \<lparr>col_dtype = Int64, col_cells = map cast_int64 (col_cells c)\<rparr>)
                   else nc) (cols (h ! a))
    \<and> (\<forall>b. b \<noteq> a \<longrightarrow> h' ! b = h ! b)"
proof -
  from mode have ni: "mode \<noteq> ''inference''" by auto
  from built obtain c where
    c: "map_of (cols (h ! a)) ''label'' = Some c" "issubdtype_integer (col_dtype c)"
    and h': "h' = h[a := setitem (h ! a) ''label'' (astype_int64 c)]"
    and ds: "ds_df ds = a"
    using ni by (auto simp: Dataset_init_def split: if_splits option.splits)
  have in_cols: "''label'' \<in> set (columns (h ! a))" using c(1) by (rule map_of_in_columns)
  show ?thesis
    using c ds addr in_cols by (intro exI [of _ c]) (simp add: h' setitem_def astype_int64_def)
qed

text \<open>An int32 label column: the cast is visible in the caller's dataframe.\<close>

theorem Dataset_init_label_cast_witness:
  "\<exists>h' ds. Dataset_init
      [\<lparr>index = [0, 1],
        cols = [(''img'', \<lparr>col_dtype = Object, col_cells = [StrC ''a.png'', StrC ''b.png'']\<rparr>),
                (''label'', \<lparr>col_dtype = Int32, col_cells = [IntC 5, IntC 7]\<rparr>)]\<rparr>]
      0 () ''train'' None = Inr (h', ds)
    \<and> ds_df ds = 0
    \<and> cols (h' ! 0) =
        [(''img'', \<lparr>col_dtype = Object, col_cells = [StrC ''a.png'', StrC ''b.png'']\<rparr>),
         (''label'', \<lparr>col_dtype = Int64, col_cells = [IntC 5, IntC 7]\<rparr>)]"
proof -
  let ?h = "[\<lparr>index = [0, 1],
        cols = [(''img'', \<lparr>col_dtype = Object, col_cells = [StrC ''a.png'', StrC ''b.png'']\<rparr>),
                (''label'', \<lparr>col_dtype = Int32, col_cells = [IntC 5, IntC 7]\<rparr>)]\<rparr>]"
  obtain h' ds where built: "Dataset_init ?h 0 () ''train'' None = Inr (h', ds :: unit dataset)"
    by (simp add: Dataset_init_def columns_def)
  have addr: "0 < length ?h" by simp
  from Dataset_init_label_cast [OF addr _ built]
  obtain c where "map_of (cols (?h ! 0)) ''label'' = Some c" "ds_df ds = 0"
    "cols (h' ! 0) =
        map (\<lambda>nc. if fst nc = ''label''
                   then (''label'', \<lparr>col_dtype = Int64, col_cells = map cast_int64 (col_cells c)\<rparr>)
                   else nc) (cols (?h ! 0))"
    by auto
  then have "ds_df ds = 0 \<and> cols (h' ! 0) =
        [(''img'', \<lparr>col_dtype = Object, col_cells = [StrC ''a.png'', StrC ''b.png'']\<rparr>),
         (''label'', \<lparr>col_dtype = Int64, col_cells = [IntC 5, IntC 7]\<rparr>)]"
    by auto
  with built show ?thesis by blast
qed

section \<open>Properties of the autoencoder and of the training utilities\<close>

lemma nn_Linear_float_right:
  "nn_Linear a (PyFloat q) = Inl (TypeError ''empty(): argument size must be tuple of ints'')"
  by (cases a) simp_all

lemma nn_Linear_float_left:
  "nn_Linear (PyFloat q) b = Inl (TypeError ''empty(): argument size must be tuple of ints'')"
  by simp

lemma truediv_two: "truediv fl k 2 = Inr (PyFloat (fl (of_int k / 2)))"
  by (simp add: truediv_def)

lemma isl_py_bind: "isl (py_bind r f) = (isl r \<or> (\<exists>x. r = Inr x \<and> isl (f x)))"
  by (cases r) (simp_all add: py_bind_def)

lemma Encoder_init_fails: "isl (Encoder_init fl Conv2d config)"
  unfolding Encoder_init_def Let_def
  by (simp add: isl_py_bind truediv_two nn_Linear_float_right) (metis sum.collapse(2))

lemma Decoder_init_fails: "isl (Decoder_init fl ConvTranspose2d config)"
  unfolding Decoder_init_def Let_def
  by (simp add: isl_py_bind truediv_two nn_Linear_float_right) (metis sum.collapse(2))

text \<open>
  Claim C6. For every config, whatever the rounding and whatever the convolution
  constructors do, \<^verbatim>\<open>Encoder(config)\<close>, \<^verbatim>\<open>Decoder(config)\<close> and
  \<^verbatim>\<open>VariationalAutoencoder(config)\<close> raise: \<^verbatim>\<open>dim / 2\<close> is a float, and \<^verbatim>\<open>nn.Linear\<close>
  does not take a float size.
\<close>

theorem vae_constructors_fail:
  "isl (Encoder_init fl Conv2d config)
   \<and> isl (Decoder_init fl ConvTranspose2d config)
   \<and> isl (VariationalAutoencoder_init fl Conv2d ConvTranspose2d config)"
  by (simp add: Encoder_init_fails Decoder_init_fails VariationalAutoencoder_init_def isl_py_bind)

text \<open>
  With the config of the source and convolutions that can be built, the error is the
  \<^verbatim>\<open>TypeError\<close> of \<^verbatim>\<open>nn.Linear\<close>.
\<close>

lemma Encoder_init_default:
  "Encoder_init binary64 (\<lambda>a b. Inr (a, b)) default_ModelConfig
     = Inl (TypeError ''empty(): argument size must be tuple of ints'')"
  by (simp add: Encoder_init_def default_ModelConfig_def getitem_def py_bind_def truediv_def)

lemma Decoder_init_default:
  "Decoder_init binary64 (\<lambda>a b. Inr (a, b)) default_ModelConfig
     = Inl (TypeError ''empty(): argument size must be tuple of ints'')"
  by (simp add: Decoder_init_def default_ModelConfig_def getitem_def py_bind_def truediv_def)

text \<open>
  Claim C7. \<^verbatim>\<open>forward(x)\<close> returns \<open>(decoder(latent), mu, logvar)\<close> where
  \<open>(mu, logvar) = encoder(x)\<close> and \<open>latent = latent_sample(mu, logvar)\<close>; outside training
  mode \<open>latent_sample(mu, logvar)\<close> is \<open>mu\<close> (and draws nothing from the generator), so that
  \<^verbatim>\<open>forward(x)\<close> is \<open>(decoder(mu), mu, logvar)\<close>.
\<close>

theorem vae_forward_result:
  "(encoder self x = Inr (mu, logvar) \<longrightarrow> latent_sample ops self g mu logvar = (latent, g') \<longrightarrow>
      decoder self latent = Inr y \<longrightarrow>
      vae_forward ops self g x = Inr ((y, mu, logvar), g'))
   \<and> (\<not> training self \<longrightarrow> latent_sample ops self g mu logvar = (mu, g))
   \<and> (\<not> training self \<longrightarrow> encoder self x = Inr (mu, logvar) \<longrightarrow> decoder self mu = Inr y \<longrightarrow>
      vae_forward ops self g x = Inr ((y, mu, logvar), g))"
  by (simp add: vae_forward_def latent_sample_def)

theorem vae_forward_result_witness:
  "vae_forward
     \<lparr>t_mul_scalar = (\<lambda>t q. t), t_exp = (\<lambda>t. t), t_normal_like = (\<lambda>g t. (t, g)),
      t_mul = (\<lambda>a b. a * b), t_add = (\<lambda>a b. a + b)\<rparr>
     \<lparr>encoder = (\<lambda>x :: int. Inr (x, x + 1)), decoder = (\<lambda>t :: int. Inr (2 * t)), training = False\<rparr>
     () 3 = Inr ((6 :: int, 3, 4), ())"
  using vae_forward_result [of
     "\<lparr>encoder = (\<lambda>x :: int. Inr (x, x + 1)), decoder = (\<lambda>t :: int. Inr (2 * t)), training = False\<rparr>"
     3 3 4
     "\<lparr>t_mul_scalar = (\<lambda>t q. t), t_exp = (\<lambda>t. t), t_normal_like = (\<lambda>g t. (t, g)),
      t_mul = (\<lambda>a b. a * b), t_add = (\<lambda>a b. a + b)\<rparr>" "()" 3 "()" 6]
  by simp

lemma exclude_groups_map:
  "exclude_groups ewd ecl gs =
     map (\<lambda>g. g\<lparr>pg_weight_decay := (if ewd (pg_name g) then 0 else pg_weight_decay g),
                 pg_clipping := (if ecl (pg_name g) then None else pg_clipping g)\<rparr>) gs"
  by (induction gs) (simp_all add: Let_def)

lemma SGD_AGC_groups:
  "SGD_AGC named lr mom clip wd nest = Inr optimizer \<Longrightarrow>
   param_groups optimizer =
     map (\<lambda>np. \<lparr>pg_name = fst np, pg_params = snd np, pg_lr = lr,
                 pg_momentum = mom, pg_dampening = 0, pg_weight_decay = wd,
                 pg_nesterov = nest, pg_clipping = clip, pg_eps = 1 / 1000\<rparr>) named"
  by (auto simp: SGD_AGC_def split: if_splits)

text \<open>
  Claim C8, as the code has it. When the library builds the optimizer from the named
  parameters and the config's learning rate, momentum, clipping, weight decay and Nesterov
  flag, \<^verbatim>\<open>_get_optimizer\<close> returns that optimizer with, in every parameter group,
  \<open>weight_decay\<close> set to \<open>0\<close> if \<^verbatim>\<open>exclude_from_weight_decay\<close> holds for the group's name
  and left at the config's value otherwise, and \<open>clipping\<close> set to \<open>None\<close> if
  \<^verbatim>\<open>exclude_from_clipping\<close> holds and left at the config's value otherwise; every
  other field of every group and the rest of the optimizer are as the library made them.
\<close>

theorem get_optimizer_groups:
  assumes built: "SGD_AGC named_parameters (learning_rate config) (momentum config)
      (clipping config) (weight_decay config) (nesterov config) = Inr optimizer"
  shows "\<exists>optimizer'.
      get_optimizer SGD_AGC named_parameters exclude_from_weight_decay exclude_from_clipping config
        = Inr optimizer'
    \<and> opt_state optimizer' = opt_state optimizer
    \<and> param_groups optimizer' =
        map (\<lambda>g. g\<lparr>pg_weight_decay :=
                      (if exclude_from_weight_decay (pg_name g) then 0 else weight_decay config),
                    pg_clipping :=
                      (if exclude_from_clipping (pg_name g) then None else clipping config)\<rparr>)
          (param_groups optimizer)
    \<and> map pg_name (param_groups optimizer') = map fst named_parameters
    \<and> map pg_params (param_groups optimizer') = map snd named_parameters
    \<and> list_all (\<lambda>g. pg_lr g = learning_rate config \<and> pg_momentum g = momentum config
          \<and> pg_nesterov g = nesterov config \<and> pg_dampening g = 0 \<and> pg_eps g = 1 / 1000)
        (param_groups optimizer')"
  using SGD_AGC_groups [OF built]
  by (simp add: get_optimizer_def built exclude_groups_map list_all_iff comp_def)

theorem get_optimizer_groups_witness:
  "\<exists>optimizer'.
      get_optimizer SGD_AGC [(''stem.conv0.weight'', ()), (''stem.conv0.gain'', ())]
        (\<lambda>name. name = ''stem.conv0.gain'') (\<lambda>name. False) NfnetConfig_default = Inr optimizer'
    \<and> map pg_weight_decay (param_groups optimizer') = [2 / 100000, 0]
    \<and> map pg_clipping (param_groups optimizer') = [Some (1 / 10), Some (1 / 10)]"
proof -
  have built: "SGD_AGC [(''stem.conv0.weight'', ()), (''stem.conv0.gain'', ())]
      (learning_rate NfnetConfig_default) (momentum NfnetConfig_default)
      (clipping NfnetConfig_default) (weight_decay NfnetConfig_default)
      (nesterov NfnetConfig_default) =
    Inr \<lparr>param_groups =
          [\<lparr>pg_name = ''stem.conv0.weight'', pg_params = (), pg_lr = 1 / 10,
            pg_momentum = 9 / 10, pg_dampening = 0, pg_weight_decay = 2 / 100000,
            pg_nesterov = True, pg_clipping = Some (1 / 10), pg_eps = 1 / 1000\<rparr>,
           \<lparr>pg_name = ''stem.conv0.gain'', pg_params = (), pg_lr = 1 / 10,
            pg_momentum = 9 / 10, pg_dampening = 0, pg_weight_decay = 2 / 100000,
            pg_nesterov = True, pg_clipping = Some (1 / 10), pg_eps = 1 / 1000\<rparr>],
         opt_state = ()\<rparr>"
    by (simp add: SGD_AGC_def NfnetConfig_default_def)
  from get_optimizer_groups [OF built, of "\<lambda>name. name = ''stem.conv0.gain''" "\<lambda>name. False"]
  show ?thesis by (auto simp: NfnetConfig_default_def)
qed

text \<open>
  Claim C8 as stated says \<open>weight_decay\<close> is \<open>0\<close> only for an excluded name. With a config
  whose weight decay is \<open>0\<close>, the group of a name that is not excluded has weight decay
  \<open>0\<close> as well.
\<close>

theorem get_optimizer_zero_decay_counterexample:
  "get_optimizer SGD_AGC [(''stem.conv0.weight'', ())] (\<lambda>name. False) (\<lambda>name. False) NfnetConfig0
     = Inr \<lparr>param_groups =
              [\<lparr>pg_name = ''stem.conv0.weight'', pg_params = (), pg_lr = 1 / 10,
                pg_momentum = 9 / 10, pg_dampening = 0, pg_weight_decay = 0,
                pg_nesterov = True, pg_clipping = Some (1 / 10), pg_eps = 1 / 1000\<rparr>],
            opt_state = ()\<rparr>
   \<and> \<not> (\<lambda>name. False) ''stem.conv0.weight''"
  by (simp add: get_optimizer_def SGD_AGC_def NfnetConfig0_def)

lemma train_batches_trace:
  "epoch_trace T (es_model s) batches = Inr (reports, m') \<Longrightarrow>
   \<exists>s'. train_batches F T s batches = Inr s'
     \<and> es_model s' = m'
     \<and> es_running_loss s' =
         foldl (fadd F) (es_running_loss s) (map (\<lambda>r. fmul_int F (br_loss r) (br_size r)) reports)
     \<and> es_correct_labels s' = es_correct_labels s + sum_list (map br_correct reports)
     \<and> length reports = length batches"
proof (induction batches arbitrary: s reports)
  case Nil
  then show ?case by simp
next
  case (Cons batch batches)
  from Cons.prems obtain outp loss m1 reports1 where
    fw: "forward T (es_model s) (fst batch) = Inr outp"
    and cr: "criterion T outp (snd batch) = Inr loss"
    and up: "update T (es_model s) (fst batch) (snd batch) = Inr m1"
    and rest: "epoch_trace T m1 batches = Inr (reports1, m')"
    and reports: "reports = \<lparr>br_loss = loss, br_size = length (fst batch),
          br_correct = count_equal (argmax1 T outp) (snd batch)\<rparr> # reports1"
    by (auto split: sum.splits)
  obtain s1 where step: "train_batch F T s batch = Inr s1"
    and s1: "es_model s1 = m1"
      "es_running_loss s1 = fadd F (es_running_loss s) (fmul_int F loss (length (fst batch)))"
      "es_correct_labels s1 = es_correct_labels s + count_equal (argmax1 T outp) (snd batch)"
    by (simp add: train_batch_def fw cr up Let_def)
  from rest have "epoch_trace T (es_model s1) batches = Inr (reports1, m')"
    by (simp add: s1)
  from Cons.IH [OF this] obtain s' where
    "train_batches F T s1 batches = Inr s'" "es_model s' = m'"
    "es_running_loss s' = foldl (fadd F) (es_running_loss s1)
        (map (\<lambda>r. fmul_int F (br_loss r) (br_size r)) reports1)"
    "es_correct_labels s' = es_correct_labels s1 + sum_list (map br_correct reports1)"
    "length reports1 = length batches"
    by blast
  then show ?case
    by (simp add: step s1 reports)
qed

text \<open>
  Claim C4, as the code has it. On a dataset that is not empty, when the loader and the
  calls into torch do not raise, \<^verbatim>\<open>_train_epoch\<close> makes one pass over the batches (one
  report per batch, the model updated once per batch) and returns the pair of the sum over
  the batches of batch loss times batch size, divided by \<^verbatim>\<open>len(train_dataset)\<close>, and of
  the number of samples whose argmax prediction equals the target, divided by
  \<^verbatim>\<open>len(train_dataset)\<close>.
\<close>

theorem train_epoch_result:
  assumes loader: "data_loader train_dataset = Inr dataloader"
      "iterate h dataloader = Inr batches"
    and steps: "epoch_trace T (set_train T m) batches = Inr (reports, m')"
    and nonempty: "0 < Dataset_len h train_dataset"
  shows "\<exists>printed.
      train_epoch F T iterate h m train_dataset =
        Inr ((fdiv_int F
                (foldl (fadd F) (fzero F) (map (\<lambda>r. fmul_int F (br_loss r) (br_size r)) reports))
                (Dataset_len h train_dataset),
              int_truediv F (sum_list (map br_correct reports)) (Dataset_len h train_dataset)),
             m', printed)
    \<and> length reports = length batches"
proof -
  let ?s = "\<lparr>es_model = set_train T m, es_running_loss = fzero F,
      es_correct_labels = 0, es_is_nan = False, es_stdout = []\<rparr>"
  have "epoch_trace T (es_model ?s) batches = Inr (reports, m')"
    using steps by simp
  from train_batches_trace [OF this, of F] obtain s' where
    "train_batches F T ?s batches = Inr s'" "es_model s' = m'"
    "es_running_loss s' =
       foldl (fadd F) (fzero F) (map (\<lambda>r. fmul_int F (br_loss r) (br_size r)) reports)"
    "es_correct_labels s' = sum_list (map br_correct reports)"
    "length reports = length batches"
    by auto
  then show ?thesis
    using nonempty by (simp add: train_epoch_def loader)
qed

text \<open>
  Claim C4 as stated covers every training dataset. On an empty one no pair is returned,
  whatever the loader and torch do: if the loop is reached and ends, the division by
  \<^verbatim>\<open>len(train_dataset) = 0\<close> raises \<^verbatim>\<open>ZeroDivisionError\<close>.
\<close>

theorem train_epoch_empty_counterexample:
  "\<forall>F T iterate m. isl (train_epoch F T iterate [df0] m train_ds)"
  by (auto simp: train_epoch_def Dataset_len_def nrows_def df0_def train_ds_def split: sum.splits)

































theorem train_epoch_result_witness:
  "\<exists>printed. train_epoch rat_floats toy_torch toy_iterate [df4] 0 train_ds
      = Inr ((1 / 2, 1 / 2), 2, printed)"
proof -
  let ?dl = "\<lparr>dl_dataset = train_ds, dl_batch_size = 3, dl_shuffle = True, dl_num_workers = 0,
        dl_persistent_workers = False, dl_pin_memory = False\<rparr>"
  let ?batches = "[([StrC ''d.png'', StrC ''c.png'', StrC ''b.png''], [IntC 1, IntC 2, IntC 1]),
      ([StrC ''a.png''], [IntC 0])]"
  let ?reports = "[\<lparr>br_loss = 1 / 2 :: rat, br_size = 3, br_correct = 2\<rparr>,
      \<lparr>br_loss = 1 / 2, br_size = 1, br_correct = 0\<rparr>]"
  have loader: "data_loader train_ds = Inr ?dl"
    by (simp add: data_loader_def train_ds_def config3_def Let_def)
  have iter: "toy_iterate [df4] ?dl = Inr ?batches"
    by code_simp
  have steps: "epoch_trace toy_torch (set_train toy_torch 0) ?batches = Inr (?reports, 2)"
    by (simp add: toy_torch_def count_equal_def)
  have len: "Dataset_len [df4] train_ds = 4"
    by (simp add: Dataset_len_def train_ds_def nrows_df4)
  have nonempty: "0 < Dataset_len [df4] train_ds" by (simp add: len)
  from train_epoch_result [where iterate = toy_iterate and h = "[df4]" and F = rat_floats
      and T = toy_torch and m = 0, OF loader iter steps nonempty]
  show ?thesis by (simp add: binary64_exact len rat_floats_def)
qed


end
